theory Spec2Isabelle
  imports Main "HOL-Library.Sublist"
begin

section \<open>Startup of the test server: \<open>main\<close> (test-server.py, lines 41-105)\<close>

text \<open>
  The process is modelled by what it leaves behind: the lines it printed, one entry per
  \<open>print\<close> call, the working directory set by \<open>os.chdir\<close>, and the ports handed to
  \<open>socketserver.TCPServer\<close>, in the order of the attempts.
\<close>

type_synonym path = string

record process =
  stdout :: "string list"
  cwd :: "path option"
  bind_attempts :: "nat list"

definition start :: process where
  "start = \<lparr>stdout = [], cwd = None, bind_attempts = []\<rparr>"

text \<open>
  What the operating system answers. \<open>path_exists\<close> is \<open>Path.exists\<close>;
  \<open>TCPServer\<close> is the constructor call of line 81, which either binds the port or raises an
  \<open>OSError\<close> with an errno; \<open>serve_forever\<close> is the call of line 93, which either is
  interrupted from the keyboard or never returns.
\<close>

datatype bind_result = Bound | OSError int

datatype serve_result = KeyboardInterrupt | Serves_on

record env =
  script_dir :: path
  path_exists :: "path \<Rightarrow> bool"
  TCPServer :: "nat \<Rightarrow> bind_result"
  serve_forever :: "nat \<Rightarrow> serve_result"

text \<open>
  How \<open>main\<close> ends: \<open>sys.exit(n)\<close>, a normal return, an \<open>OSError\<close> that nothing
  catches, or not at all (the server keeps serving on a port).
\<close>

datatype ending = SystemExit int | Returned | Uncaught_OSError int | Serving nat

text \<open>
  The status the interpreter hands to the operating system: the argument of \<open>sys.exit\<close>,
  0 after a normal return, 1 after an uncaught exception; none while the server runs.
\<close>

fun exit_status :: "ending \<Rightarrow> int option" where
  "exit_status (SystemExit n) = Some n"
| "exit_status Returned = Some 0"
| "exit_status (Uncaught_OSError e) = Some 1"
| "exit_status (Serving p) = None"

subsection \<open>Text\<close>

text \<open>Strings are byte strings in UTF-8; the pictographs of the messages are spelled out.\<close>

definition file_folder :: string where
  "file_folder = [CHR 0xF0, CHR 0x9F, CHR 0x93, CHR 0x81]"

definition cross_mark :: string where
  "cross_mark = [CHR 0xE2, CHR 0x9D, CHR 0x8C]"

definition video_game :: string where
  "video_game = [CHR 0xF0, CHR 0x9F, CHR 0x8E, CHR 0xAE]"

definition globe :: string where
  "globe = [CHR 0xF0, CHR 0x9F, CHR 0x8C, CHR 0x90]"

definition open_folder :: string where
  "open_folder = [CHR 0xF0, CHR 0x9F, CHR 0x93, CHR 0x82]"

definition wrench :: string where
  "wrench = [CHR 0xF0, CHR 0x9F, CHR 0x94, CHR 0xA7]"

definition bullseye :: string where
  "bullseye = [CHR 0xF0, CHR 0x9F, CHR 0x8E, CHR 0xAF]"

definition stop_button :: string where
  "stop_button = [CHR 0xE2, CHR 0x8F, CHR 0xB9, CHR 0xEF, CHR 0xB8, CHR 0x8F]"

definition stop_sign :: string where
  "stop_sign = [CHR 0xF0, CHR 0x9F, CHR 0x9B, CHR 0x91]"

definition newline :: string where
  "newline = [CHR 0x0A]"

text \<open>\<open>str(n)\<close> for a natural number: its decimal digits.\<close>

definition digit :: "nat \<Rightarrow> char" where
  "digit d = ''0123456789'' ! d"

fun str :: "nat \<Rightarrow> string" where
  "str n = (if n < 10 then [digit n] else str (n div 10) @ [digit (n mod 10)])"

declare str.simps [simp del]

text \<open>\<open>d / name\<close> on \<open>Path\<close> objects, for a relative \<open>name\<close>.\<close>

definition joinpath :: "path \<Rightarrow> string \<Rightarrow> path" where
  "joinpath d name = d @ ''/'' @ name"

definition print :: "string \<Rightarrow> process \<Rightarrow> process" where
  "print line s = s\<lparr>stdout := stdout s @ [line]\<rparr>"

subsection \<open>Choosing the directory (lines 48-58)\<close>

definition resolve_web_dir :: "env \<Rightarrow> process \<Rightarrow> (ending + path) \<times> process" where
  "resolve_web_dir e s =
     (if path_exists e (joinpath (script_dir e) ''test-deploy'') then
        (Inr (joinpath (script_dir e) ''test-deploy''),
         print (file_folder @ '' Serving from test-deploy directory'') s)
      else if path_exists e (joinpath (script_dir e) ''dist'') then
        (Inr (joinpath (script_dir e) ''dist''),
         print (file_folder @ '' Serving from dist directory'') s)
      else
        (Inl (SystemExit 1),
         print ''   Then create a deployment directory with index.html and pkg/''
          (print ''   Please run 'wasm-pack build --target web --out-dir pkg --no-typescript' first''
            (print (cross_mark @ '' Error: No built files found!'') s))))"

subsection \<open>Checking the required files (lines 61-73)\<close>

definition required_files :: "string list" where
  "required_files = [''index.html'', ''pkg/echoes_rpg.js'', ''pkg/echoes_rpg_bg.wasm'']"

text \<open>The loop of lines 64-66, with the list \<open>missing_files\<close> as accumulator.\<close>

fun collect_missing :: "env \<Rightarrow> path \<Rightarrow> string list \<Rightarrow> string list \<Rightarrow> string list" where
  "collect_missing e web_dir [] missing_files = missing_files"
| "collect_missing e web_dir (file # files) missing_files =
     collect_missing e web_dir files
       (if \<not> path_exists e (joinpath web_dir file) then missing_files @ [file]
        else missing_files)"

text \<open>The loop of lines 70-71.\<close>

fun print_missing :: "string list \<Rightarrow> process \<Rightarrow> process" where
  "print_missing [] s = s"
| "print_missing (file # files) s = print_missing files (print (''   - '' @ file) s)"

definition check_required :: "env \<Rightarrow> path \<Rightarrow> process \<Rightarrow> (ending + unit) \<times> process" where
  "check_required e web_dir s =
     (let missing_files = collect_missing e web_dir required_files [] in
      if missing_files \<noteq> [] then
        (Inl (SystemExit 1),
         print (newline @ ''   Please ensure you have built the WASM package correctly.'')
           (print_missing missing_files
             (print (cross_mark @ '' Error: Missing required files:'') s)))
      else (Inr (), s))"

subsection \<open>Finding a port (lines 79-105)\<close>

definition banner :: "nat \<Rightarrow> path \<Rightarrow> process \<Rightarrow> process" where
  "banner port web_dir s =
     print []
      (print (stop_button @ ''  Press Ctrl+C to stop the server'')
       (print (bullseye @ '' Open http://localhost:'' @ str port @ '' in your browser to play!'')
        (print (replicate 50 CHR ''='')
         (print (wrench @ '' WASM and CORS headers configured'')
          (print (open_folder @ '' Serving files from: '' @ web_dir)
           (print (globe @ '' Server running at: http://localhost:'' @ str port)
            (print (replicate 50 CHR ''='')
             (print (video_game @ '' Echoes RPG Test Server'') s))))))))"

text \<open>The test of line 99, under the name its comment gives it.\<close>

definition address_in_use :: "int \<Rightarrow> bool" where
  "address_in_use errno = (errno = 48 \<or> errno = 98)"

text \<open>
  The \<open>for\<close> loop over the candidate ports with its \<open>else\<close> branch: the empty list is
  the loop running out, which reaches the \<open>else\<close>; \<open>break\<close> leaves the loop and skips
  it, so \<open>main\<close> returns; \<open>continue\<close> is the recursive call; \<open>raise\<close> ends the process
  with the exception.
\<close>

fun find_port :: "env \<Rightarrow> nat \<Rightarrow> path \<Rightarrow> nat list \<Rightarrow> process \<Rightarrow> ending \<times> process" where
  "find_port e PORT web_dir [] s =
     (SystemExit 1,
      print (cross_mark @ '' Error: Could not find an available port starting from '' @ str PORT) s)"
| "find_port e PORT web_dir (port # ports) s =
     (let s1 = s\<lparr>bind_attempts := bind_attempts s @ [port]\<rparr> in
      case TCPServer e port of
        Bound \<Rightarrow>
          (let s2 = banner port web_dir s1 in
           case serve_forever e port of
             KeyboardInterrupt \<Rightarrow>
               (Returned, print (newline @ stop_sign @ '' Server stopped by user'') s2)
           | Serves_on \<Rightarrow> (Serving port, s2))
      | OSError errno \<Rightarrow>
          if address_in_use errno then find_port e PORT web_dir ports s1
          else (Uncaught_OSError errno, s1))"

subsection \<open>\<open>main\<close>\<close>

definition main :: "env \<Rightarrow> ending \<times> process" where
  "main e =
     (let PORT = 8080 in
      case resolve_web_dir e start of
        (Inl stop, s) \<Rightarrow> (stop, s)
      | (Inr web_dir, s) \<Rightarrow>
          (case check_required e web_dir s of
             (Inl stop, s) \<Rightarrow> (stop, s)
           | (Inr _, s) \<Rightarrow>
               find_port e PORT web_dir [PORT ..< PORT + 10] (s\<lparr>cwd := Some web_dir\<rparr>)))"

section \<open>The request handler: \<open>GameHTTPRequestHandler\<close> (lines 13-39)\<close>

text \<open>
  One handler object answers one request. Its state is the request and the response under
  construction. Of the request it holds \<open>command\<close> and \<open>path\<close>, the request target as
  received, query string included; \<open>path\<close> is an attribute that the library assigns when it
  has parsed the request line, and that does not exist before. Of the response it holds the
  status code, the headers in the order they were sent, whether the header section is closed
  (and with it the buffered headers written to the client), and the body written after it.
  \<open>opened\<close> records every path the handler looked up in the file system.
\<close>

type_synonym header = "string \<times> string"

record handler =
  command :: string
  path :: "string option"
  version_string :: string
  date_time_string :: string
  response_code :: "nat option"
  headers_buffer :: "header list"
  headers_ended :: bool
  wfile :: string
  opened :: "path list"

text \<open>The handler before the request line is parsed, and after it was parsed.\<close>

definition unparsed :: "string \<Rightarrow> string \<Rightarrow> handler" where
  "unparsed version date =
     \<lparr>command = [], path = None, version_string = version, date_time_string = date,
      response_code = None, headers_buffer = [], headers_ended = False, wfile = [],
      opened = []\<rparr>"

definition request :: "string \<Rightarrow> string \<Rightarrow> string \<Rightarrow> string \<Rightarrow> handler" where
  "request cmd target version date =
     (unparsed version date)\<lparr>command := cmd, path := Some target\<rparr>"

text \<open>
  Reading an attribute that does not exist raises \<open>AttributeError\<close>. Nothing in the handler
  catches it: the request is abandoned, and the headers buffered so far are never written.
\<close>

datatype exn = AttributeError

subsection \<open>The calls into \<open>http.server\<close>\<close>

text \<open>
  The methods of \<open>BaseHTTPRequestHandler\<close> that the handler calls, as the library documents
  them: \<open>send_header\<close> adds one header to the response, \<open>send_response\<close> sets the status
  and adds the \<open>Server\<close> and \<open>Date\<close> headers, and the inherited \<open>end_headers\<close> closes the
  header section.
\<close>

definition send_header :: "string \<Rightarrow> string \<Rightarrow> handler \<Rightarrow> handler" where
  "send_header keyword v self = self\<lparr>headers_buffer := headers_buffer self @ [(keyword, v)]\<rparr>"

definition send_response :: "nat \<Rightarrow> handler \<Rightarrow> handler" where
  "send_response code self =
     send_header ''Date'' (date_time_string self)
       (send_header ''Server'' (version_string self)
         (self\<lparr>response_code := Some code\<rparr>))"

definition super_end_headers :: "handler \<Rightarrow> handler" where
  "super_end_headers self = self\<lparr>headers_ended := True\<rparr>"

text \<open>\<open>s.endswith(suf)\<close> on strings.\<close>

definition endswith :: "string \<Rightarrow> string \<Rightarrow> bool" where
  "endswith s suf = suffix suf s"

subsection \<open>\<open>end_headers\<close> (lines 16-30) and \<open>do_OPTIONS\<close> (lines 32-35)\<close>

text \<open>
  Lines 18-20 send the three headers; line 23 is the first to read \<open>self.path\<close>, and raises
  when the attribute is not there.
\<close>

definition end_headers :: "handler \<Rightarrow> exn + handler" where
  "end_headers self =
     (let self = send_header ''Access-Control-Allow-Origin'' ''*'' self;
          self = send_header ''Access-Control-Allow-Methods'' ''GET, POST, OPTIONS'' self;
          self = send_header ''Access-Control-Allow-Headers'' ''*'' self
      in case path self of
           None \<Rightarrow> Inl AttributeError
         | Some p \<Rightarrow>
             Inr (super_end_headers
               (if endswith p ''.wasm'' then
                  send_header ''Content-Type'' ''application/wasm'' self
                else if endswith p ''.js'' then
                  send_header ''Content-Type'' ''application/javascript'' self
                else if endswith p ''.html'' then
                  send_header ''Content-Type'' ''text/html; charset=utf-8'' self
                else self)))"

definition do_OPTIONS :: "handler \<Rightarrow> exn + handler" where
  "do_OPTIONS self = end_headers (send_response 200 self)"

subsection \<open>The inherited methods\<close>

text \<open>
  What the inherited handler works with: the resolution of a request target to the path of
  the file that answers it under the served directory (section 4.4 step 1: the query string
  plays no part in it, and a directory is answered by its index page), the files found
  there, the general table from file names to MIME types, and the page it sends with an
  error.
\<close>

record served_file =
  content :: string
  last_modified :: string

record site =
  translate_path :: "string \<Rightarrow> path"
  files :: "path \<Rightarrow> served_file option"
  mime_types :: "path \<Rightarrow> string option"
  error_content_type :: string
  error_page :: "nat \<Rightarrow> string"

text \<open>
  Modelled from the spec: \<open>guess_type\<close> of \<open>SimpleHTTPRequestHandler\<close> (Python standard
  library, not under src/), section 4.4 step 2: a generic extension-to-MIME-type lookup,
  defaulting to an octet-stream type if unknown.
\<close>

definition guess_type :: "site \<Rightarrow> path \<Rightarrow> string" where
  "guess_type site p =
     (case mime_types site p of Some t \<Rightarrow> t | None \<Rightarrow> ''application/octet-stream'')"

text \<open>
  Modelled from the spec: \<open>send_error\<close> of \<open>BaseHTTPRequestHandler\<close> (Python standard
  library, not under src/), section 4.4 step 4: the status with a standard body. The
  headers are the library's; the header section is closed by \<open>self.end_headers()\<close>, which
  is the method of lines 16-30, and the body is written after it. A \<open>HEAD\<close> request gets
  no body.
\<close>

definition send_error :: "site \<Rightarrow> nat \<Rightarrow> handler \<Rightarrow> exn + handler" where
  "send_error site code self =
     (let self = send_response code self;
          self = send_header ''Connection'' ''close'' self;
          self = send_header ''Content-Type'' (error_content_type site) self;
          self = send_header ''Content-Length'' (str (length (error_page site code))) self
      in case end_headers self of
           Inl e \<Rightarrow> Inl e
         | Inr self \<Rightarrow>
             Inr (if command self \<noteq> ''HEAD''
                  then self\<lparr>wfile := wfile self @ error_page site code\<rparr>
                  else self))"

text \<open>
  Modelled from the spec: \<open>send_head\<close>, \<open>do_GET\<close> and \<open>do_HEAD\<close> of
  \<open>SimpleHTTPRequestHandler\<close> (Python standard library, not under src/), section 4.4
  steps 1, 2, 4 and 5: the request target is mapped to a file; a file that does not exist
  is answered with 404; a file that exists is answered with 200, the content type of the
  generic lookup, and, for \<open>GET\<close>, its bytes. As for \<open>send_error\<close>, the header section is
  closed by the method of lines 16-30.
\<close>

definition send_head :: "site \<Rightarrow> handler \<Rightarrow> exn + handler \<times> served_file option" where
  "send_head site self =
     (case path self of
        None \<Rightarrow> Inl AttributeError
      | Some target \<Rightarrow>
          (let p = translate_path site target;
               self = self\<lparr>opened := opened self @ [p]\<rparr>
           in case files site p of
                None \<Rightarrow>
                  (case send_error site 404 self of
                     Inl e \<Rightarrow> Inl e
                   | Inr self \<Rightarrow> Inr (self, None))
              | Some f \<Rightarrow>
                  (let self = send_response 200 self;
                       self = send_header ''Content-type'' (guess_type site p) self;
                       self = send_header ''Content-Length'' (str (length (content f))) self;
                       self = send_header ''Last-Modified'' (last_modified f) self
                   in case end_headers self of
                        Inl e \<Rightarrow> Inl e
                      | Inr self \<Rightarrow> Inr (self, Some f))))"

definition do_GET :: "site \<Rightarrow> handler \<Rightarrow> exn + handler" where
  "do_GET site self =
     (case send_head site self of
        Inl e \<Rightarrow> Inl e
      | Inr (self, Some f) \<Rightarrow> Inr (self\<lparr>wfile := wfile self @ content f\<rparr>)
      | Inr (self, None) \<Rightarrow> Inr self)"

definition do_HEAD :: "site \<Rightarrow> handler \<Rightarrow> exn + handler" where
  "do_HEAD site self =
     (case send_head site self of
        Inl e \<Rightarrow> Inl e
      | Inr (self, f) \<Rightarrow> Inr self)"

text \<open>
  The dispatch of a parsed request on its method: the handler has \<open>do_OPTIONS\<close> of its own,
  inherits \<open>do_GET\<close> and \<open>do_HEAD\<close>, and has no method for anything else, which the library
  answers with 501.
\<close>

definition handle :: "site \<Rightarrow> handler \<Rightarrow> exn + handler" where
  "handle site self =
     (if command self = ''OPTIONS'' then do_OPTIONS self
      else if command self = ''GET'' then do_GET site self
      else if command self = ''HEAD'' then do_HEAD site self
      else send_error site 501 self)"

text \<open>
  What the library makes of a request line: it refuses it with an error status before it
  has assigned \<open>self.path\<close> (400 for a bad syntax or version, 505 for an unsupported
  version), or it accepts it with a command and a path. Errors in the header lines that
  follow the request line are left out.
\<close>

datatype parsed = Refused nat | Accepted string string

text \<open>
  \<open>handle_one_request\<close> of \<open>BaseHTTPRequestHandler\<close> (Python standard library, not under
  src/), as far as it decides which method answers: a request line of more than 65536 bytes
  is answered with 414 before anything is parsed; a line that \<open>parse_request\<close> refuses is
  answered there; an accepted one is dispatched. The error replies are \<open>send_error\<close>, which
  closes the header section by the method of lines 16-30.
\<close>

definition handle_one_request ::
    "(string \<Rightarrow> parsed) \<Rightarrow> site \<Rightarrow> string \<Rightarrow> handler \<Rightarrow> exn + handler" where
  "handle_one_request parse_request site raw_requestline self =
     (if length raw_requestline > 65536 then send_error site 414 self
      else case parse_request raw_requestline of
             Refused code \<Rightarrow> send_error site code self
           | Accepted cmd target \<Rightarrow> handle site (self\<lparr>command := cmd, path := Some target\<rparr>))"

text \<open>
  The values of the \<open>Content-Type\<close> headers of a response, in the order sent. Header names
  do not distinguish case.
\<close>

definition lower :: "string \<Rightarrow> string" where
  "lower s =
     map (\<lambda>c. case map_of (zip ''ABCDEFGHIJKLMNOPQRSTUVWXYZ'' ''abcdefghijklmnopqrstuvwxyz'') c of
                Some l \<Rightarrow> l
              | None \<Rightarrow> c) s"

definition content_types :: "handler \<Rightarrow> string list" where
  "content_types self = map snd (filter (\<lambda>h. lower (fst h) = ''content-type'') (headers_buffer self))"

text \<open>The response headers of section 6 of the specification that grant cross-origin access.\<close>

definition cors_headers :: "header list" where
  "cors_headers =
     [(''Access-Control-Allow-Origin'', ''*''),
      (''Access-Control-Allow-Methods'', ''GET, POST, OPTIONS''),
      (''Access-Control-Allow-Headers'', ''*'')]"

section \<open>Notions for the statements\<close>

text \<open>
  A candidate port counts as in use when binding it raises an \<open>OSError\<close> that line 99
  takes for address-in-use.
\<close>

definition port_in_use :: "env \<Rightarrow> nat \<Rightarrow> bool" where
  "port_in_use e port =
     (case TCPServer e port of OSError errno \<Rightarrow> address_in_use errno | Bound \<Rightarrow> False)"

text \<open>
  Startup gets as far as the port loop with directory \<open>web_dir\<close>: the resolver chose it, and
  every required file exists under it.
\<close>

definition startup_ok :: "env \<Rightarrow> path \<Rightarrow> bool" where
  "startup_ok e web_dir =
     (fst (resolve_web_dir e start) = Inr web_dir \<and>
      (\<forall>f \<in> set required_files. path_exists e (joinpath web_dir f)))"

text \<open>
  The values of the \<open>Content-Type\<close> headers that lines 23-28 add for a request path: at most
  one, by the first suffix that matches.
\<close>

definition suffix_content_type :: "string \<Rightarrow> string list" where
  "suffix_content_type p =
     (if endswith p ''.wasm'' then [''application/wasm'']
      else if endswith p ''.js'' then [''application/javascript'']
      else if endswith p ''.html'' then [''text/html; charset=utf-8'']
      else [])"

section \<open>Concrete environments\<close>

text \<open>
  The checkout is at \<open>/srv/echoes_rpg\<close>. In the first environment only \<open>dist\<close> was
  built, and port 8080 is taken by another process (errno 98).
\<close>

definition env_port_taken :: env where
  "env_port_taken =
     \<lparr>script_dir = ''/srv/echoes_rpg'',
      path_exists = (\<lambda>p. p \<noteq> ''/srv/echoes_rpg/test-deploy''),
      TCPServer = (\<lambda>port. if port = 8080 then OSError 98 else Bound),
      serve_forever = (\<lambda>port. Serves_on)\<rparr>"

text \<open>Every candidate port is taken (errno 48).\<close>

definition env_ports_exhausted :: env where
  "env_ports_exhausted =
     \<lparr>script_dir = ''/srv/echoes_rpg'',
      path_exists = (\<lambda>p. True),
      TCPServer = (\<lambda>port. OSError 48),
      serve_forever = (\<lambda>port. Serves_on)\<rparr>"

text \<open>Neither \<open>test-deploy\<close> nor \<open>dist\<close> exists.\<close>

definition env_nothing_built :: env where
  "env_nothing_built =
     \<lparr>script_dir = ''/srv/echoes_rpg'',
      path_exists = (\<lambda>p. False),
      TCPServer = (\<lambda>port. Bound),
      serve_forever = (\<lambda>port. Serves_on)\<rparr>"

text \<open>\<open>test-deploy\<close> exists, without \<open>pkg/echoes_rpg_bg.wasm\<close>.\<close>

definition env_missing_wasm :: env where
  "env_missing_wasm =
     \<lparr>script_dir = ''/srv/echoes_rpg'',
      path_exists = (\<lambda>p. p \<noteq> ''/srv/echoes_rpg/test-deploy/pkg/echoes_rpg_bg.wasm''),
      TCPServer = (\<lambda>port. Bound),
      serve_forever = (\<lambda>port. Serves_on)\<rparr>"

text \<open>Port 8080 is taken, and binding port 8081 is refused (errno 13, permission denied).\<close>

definition env_permission_denied :: env where
  "env_permission_denied =
     \<lparr>script_dir = ''/srv/echoes_rpg'',
      path_exists = (\<lambda>p. True),
      TCPServer = (\<lambda>port. if port = 8080 then OSError 98 else OSError 13),
      serve_forever = (\<lambda>port. Serves_on)\<rparr>"

text \<open>Everything is in place, port 8080 is free, and the user presses Ctrl-C.\<close>

definition env_interrupted :: env where
  "env_interrupted =
     \<lparr>script_dir = ''/srv/echoes_rpg'',
      path_exists = (\<lambda>p. True),
      TCPServer = (\<lambda>port. Bound),
      serve_forever = (\<lambda>port. KeyboardInterrupt)\<rparr>"

text \<open>
  A served directory with two files, a table of MIME types that knows no extension, and
  request targets resolved by dropping the query string.
\<close>

definition wasm_file :: served_file where
  "wasm_file = \<lparr>content = ''wasm'', last_modified = ''Mon, 02 Nov 2026 10:00:00 GMT''\<rparr>"

definition demo_site :: site where
  "demo_site =
     \<lparr>translate_path = (\<lambda>target. ''/srv/echoes_rpg/dist'' @ takeWhile (\<lambda>c. c \<noteq> CHR ''?'') target),
      files = (\<lambda>p. if p = ''/srv/echoes_rpg/dist/pkg/echoes_rpg_bg.wasm'' \<or>
                        p = ''/srv/echoes_rpg/dist/app.wasm''
                     then Some wasm_file else None),
      mime_types = (\<lambda>p. None),
      error_content_type = ''text/html;charset=utf-8'',
      error_page = (\<lambda>code. ''Error response'')\<rparr>"

text \<open>
  The same directory where the generic lookup knows the extension \<open>.wasm\<close>, as the table
  of Python's \<open>mimetypes\<close> does.
\<close>

definition wasm_aware_site :: site where
  "wasm_aware_site =
     demo_site\<lparr>mime_types :=
       (\<lambda>p. if endswith p ''.wasm'' then Some ''application/wasm'' else None)\<rparr>"

text \<open>
  The same directory with the file \<open>app.js\<close> besides, and a generic lookup that knows the
  three extensions with the types of the table of Python's \<open>mimetypes\<close>.
\<close>

definition js_file :: served_file where
  "js_file = \<lparr>content = ''export {}'', last_modified = ''Mon, 02 Nov 2026 10:00:00 GMT''\<rparr>"

definition mimetypes_site :: site where
  "mimetypes_site =
     demo_site\<lparr>files :=
       (\<lambda>p. if p = ''/srv/echoes_rpg/dist/app.js'' then Some js_file else files demo_site p),
      mime_types :=
       (\<lambda>p. if endswith p ''.wasm'' then Some ''application/wasm''
            else if endswith p ''.js'' then Some ''text/javascript''
            else if endswith p ''.html'' then Some ''text/html''
            else None)\<rparr>"

text \<open>
  A request line of 70014 bytes, and a parser that accepts one request line and refuses
  every other with 400.
\<close>

definition over_long_request_line :: string where
  "over_long_request_line = ''GET /'' @ replicate 70000 CHR ''a'' @ '' HTTP/1.1''"

definition demo_parse_request :: "string \<Rightarrow> parsed" where
  "demo_parse_request line =
     (if line = ''OPTIONS /pkg/echoes_rpg.js HTTP/1.1''
      then Accepted ''OPTIONS'' ''/pkg/echoes_rpg.js''
      else Refused 400)"

text \<open>A parsed request as the handler holds it, with its version string and the date.\<close>

definition demo_request :: "string \<Rightarrow> string \<Rightarrow> handler" where
  "demo_request cmd target =
     request cmd target ''SimpleHTTP/0.6 Python/3.12.3'' ''Tue, 03 Nov 2026 10:00:00 GMT''"

section \<open>Properties of startup\<close>

subsection \<open>Auxiliary facts\<close>

lemma collect_missing_filter:
  "collect_missing e w fs acc = acc @ filter (\<lambda>f. \<not> path_exists e (joinpath w f)) fs"
  by (induction fs arbitrary: acc) simp_all

lemma print_missing_stdout:
  "print_missing fs s = s\<lparr>stdout := stdout s @ map (\<lambda>f. ''   - '' @ f) fs\<rparr>"
  by (induction fs arbitrary: s) (simp_all add: print_def)

lemma find_port_skip:
  "\<forall>q \<in> set qs. port_in_use e q \<Longrightarrow>
   find_port e P w (qs @ rest) s = find_port e P w rest (s\<lparr>bind_attempts := bind_attempts s @ qs\<rparr>)"
proof (induction qs arbitrary: s)
  case Nil
  then show ?case by simp
next
  case (Cons q qs)
  from Cons.prems obtain n where n: "TCPServer e q = OSError n" "address_in_use n"
    by (auto simp: port_in_use_def split: bind_result.splits)
  from Cons.prems have rest: "\<forall>q \<in> set qs. port_in_use e q" by simp
  show ?case using n Cons.IH [OF rest] by (simp add: Let_def)
qed

lemma upt_split: "a \<le> p \<Longrightarrow> p < b \<Longrightarrow> [a..<b] = [a..<p] @ p # [Suc p..<b]"
  by (metis le_add_diff_inverse less_imp_le_nat upt_add_eq_append upt_conv_Cons)

lemma check_required_ok:
  "\<forall>f \<in> set required_files. path_exists e (joinpath w f) \<Longrightarrow> check_required e w s = (Inr (), s)"
  by (simp add: check_required_def collect_missing_filter)

lemma main_ports:
  assumes "startup_ok e w"
  shows "main e = find_port e 8080 w [8080..<8090] ((snd (resolve_web_dir e start))\<lparr>cwd := Some w\<rparr>)"
proof -
  obtain r s where rs: "resolve_web_dir e start = (r, s)" by (cases "resolve_web_dir e start")
  with assms have r: "r = Inr w" by (simp add: startup_ok_def)
  from assms have "check_required e w s = (Inr (), s)"
    by (simp add: startup_ok_def check_required_ok)
  then show ?thesis using rs r by (simp add: main_def)
qed

lemma print_fields [simp]:
  "stdout (print l s) = stdout s @ [l]"
  "cwd (print l s) = cwd s"
  "bind_attempts (print l s) = bind_attempts s"
  by (simp_all add: print_def)

lemma banner_fields:
  "cwd (banner p w s) = cwd s"
  "bind_attempts (banner p w s) = bind_attempts s"
  "prefix (stdout s) (stdout (banner p w s))"
  "(globe @ '' Server running at: http://localhost:'' @ str p) \<in> set (stdout (banner p w s))"
  by (simp_all add: banner_def)

lemma resolve_fields:
  "cwd (snd (resolve_web_dir e s)) = cwd s"
  "bind_attempts (snd (resolve_web_dir e s)) = bind_attempts s"
  "prefix (stdout s) (stdout (snd (resolve_web_dir e s)))"
  by (simp_all add: resolve_web_dir_def)

lemma check_required_fields:
  "cwd (snd (check_required e w s)) = cwd s"
  "bind_attempts (snd (check_required e w s)) = bind_attempts s"
  "prefix (stdout s) (stdout (snd (check_required e w s)))"
  by (simp_all add: check_required_def Let_def print_missing_stdout)

lemma find_port_cwd: "cwd (snd (find_port e P w ports s)) = cwd s"
  by (induction ports arbitrary: s)
     (simp_all add: Let_def banner_fields split: bind_result.splits serve_result.splits)

lemma find_port_stdout: "prefix (stdout s) (stdout (snd (find_port e P w ports s)))"
proof (induction ports arbitrary: s)
  case Nil
  then show ?case by simp
next
  case (Cons p ports)
  let ?s1 = "s\<lparr>bind_attempts := bind_attempts s @ [p]\<rparr>"
  have b: "prefix (stdout s) (stdout (banner p w ?s1))"
    using banner_fields(3) [of ?s1 p w] by simp
  have r: "prefix (stdout s) (stdout (snd (find_port e P w ports ?s1)))"
    using Cons.IH [of ?s1] by simp
  show ?case using b r
    by (auto simp: Let_def split: bind_result.splits serve_result.splits
             intro: prefix_order.trans)
qed

lemma find_port_attempts:
  "\<exists>k. bind_attempts (snd (find_port e P w ports s)) = bind_attempts s @ take k ports"
proof (induction ports arbitrary: s)
  case Nil
  then show ?case by simp
next
  case (Cons p ports)
  let ?s1 = "s\<lparr>bind_attempts := bind_attempts s @ [p]\<rparr>"
  have one: "bind_attempts s @ [p] = bind_attempts s @ take 1 (p # ports)" by simp
  from Cons.IH [of ?s1] obtain k where
    k: "bind_attempts (snd (find_port e P w ports ?s1)) = bind_attempts s @ take (Suc k) (p # ports)"
    by auto
  show ?case
  proof (cases "TCPServer e p")
    case Bound
    then show ?thesis using one
      by (cases "serve_forever e p") (auto simp: Let_def banner_fields simp del: take_Suc_Cons)
  next
    case (OSError n)
    show ?thesis
    proof (cases "address_in_use n")
      case True
      then show ?thesis using OSError k by (auto simp: Let_def simp del: take_Suc_Cons)
    next
      case False
      then show ?thesis using OSError one by (auto simp: Let_def simp del: take_Suc_Cons)
    qed
  qed
qed

lemma main_attempts: "prefix (bind_attempts (snd (main e))) [8080..<8090]"
proof -
  obtain r s where rs: "resolve_web_dir e start = (r, s)" by (cases "resolve_web_dir e start")
  have s: "bind_attempts s = []" using resolve_fields(2) [of e start] rs by (simp add: start_def)
  show ?thesis
  proof (cases r)
    case (Inl stop)
    then show ?thesis using rs s by (simp add: main_def)
  next
    case (Inr w)
    obtain c s' where c: "check_required e w s = (c, s')" by (cases "check_required e w s")
    have s': "bind_attempts s' = []" using check_required_fields(2) [of e w s] c s by simp
    show ?thesis
    proof (cases c)
      case (Inl stop)
      then show ?thesis using rs Inr c s' by (simp add: main_def)
    next
      case (Inr u)
      obtain k where "bind_attempts (snd (find_port e 8080 w [8080..<8090] (s'\<lparr>cwd := Some w\<rparr>)))
                        = take k [8080..<8090]"
        using find_port_attempts [of e 8080 w "[8080..<8090]" "s'\<lparr>cwd := Some w\<rparr>"] s' by auto
      then show ?thesis using rs \<open>r = Inr w\<close> c Inr
        by (simp add: main_def take_is_prefix del: upt_Suc)
    qed
  qed
qed

lemma main_reaches:
  assumes ok: "startup_ok e w" and lo: "8080 \<le> p" and hi: "p < 8090"
    and busy: "\<forall>q \<in> set [8080..<p]. port_in_use e q"
  shows "main e = find_port e 8080 w (p # [Suc p..<8090])
                    ((snd (resolve_web_dir e start))\<lparr>cwd := Some w, bind_attempts := [8080..<p]\<rparr>)"
proof -
  let ?s = "(snd (resolve_web_dir e start))\<lparr>cwd := Some w\<rparr>"
  have empty: "bind_attempts ?s = []" using resolve_fields(2) [of e start] by (simp add: start_def)
  have "main e = find_port e 8080 w ([8080..<p] @ p # [Suc p..<8090]) ?s"
    by (subst upt_split [OF lo hi, symmetric]) (rule main_ports [OF ok])
  also have "\<dots> = find_port e 8080 w (p # [Suc p..<8090]) (?s\<lparr>bind_attempts := bind_attempts ?s @ [8080..<p]\<rparr>)"
    by (rule find_port_skip [OF busy])
  finally show ?thesis using empty by simp
qed

lemma main_exhausted:
  assumes ok: "startup_ok e w" and busy: "\<forall>q \<in> set [8080..<8090]. port_in_use e q"
  shows "main e = (SystemExit 1,
           print (cross_mark @ '' Error: Could not find an available port starting from '' @ str 8080)
             ((snd (resolve_web_dir e start))\<lparr>cwd := Some w, bind_attempts := [8080..<8090]\<rparr>))"
proof -
  let ?s = "(snd (resolve_web_dir e start))\<lparr>cwd := Some w\<rparr>"
  have empty: "bind_attempts ?s = []" using resolve_fields(2) [of e start] by (simp add: start_def)
  have "main e = find_port e 8080 w ([8080..<8090] @ []) ?s"
    by (simp only: append_Nil2 main_ports [OF ok])
  also have "\<dots> = find_port e 8080 w [] (?s\<lparr>bind_attempts := bind_attempts ?s @ [8080..<8090]\<rparr>)"
    by (rule find_port_skip [OF busy])
  finally show ?thesis using empty by simp
qed

lemma main_no_directory:
  assumes "\<not> path_exists e (joinpath (script_dir e) ''test-deploy'')"
    and "\<not> path_exists e (joinpath (script_dir e) ''dist'')"
  shows "main e =
     (SystemExit 1,
      start\<lparr>stdout :=
        [cross_mark @ '' Error: No built files found!'',
         ''   Please run 'wasm-pack build --target web --out-dir pkg --no-typescript' first'',
         ''   Then create a deployment directory with index.html and pkg/'']\<rparr>)"
  using assms by (simp add: main_def resolve_web_dir_def print_def start_def)

lemma main_stdout:
  assumes "fst (resolve_web_dir e start) = Inr w"
  shows "prefix (stdout (snd (resolve_web_dir e start))) (stdout (snd (main e)))"
proof -
  obtain s where rs: "resolve_web_dir e start = (Inr w, s)"
    using assms by (cases "resolve_web_dir e start") simp
  obtain c s' where c: "check_required e w s = (c, s')" by (cases "check_required e w s")
  have 1: "prefix (stdout s) (stdout s')" using check_required_fields(3) [of s e w] c by simp
  show ?thesis
  proof (cases c)
    case (Inl stop)
    then show ?thesis using rs c 1 by (simp add: main_def)
  next
    case (Inr u)
    have "prefix (stdout s') (stdout (snd (find_port e 8080 w [8080..<8090] (s'\<lparr>cwd := Some w\<rparr>))))"
      using find_port_stdout [of "s'\<lparr>cwd := Some w\<rparr>" e 8080 w "[8080..<8090]"] by simp
    then show ?thesis using rs c Inr 1 by (auto simp: main_def simp del: upt_Suc intro: prefix_order.trans)
  qed
qed

lemma main_cwd:
  assumes "startup_ok e w"
  shows "cwd (snd (main e)) = Some w"
  by (simp only: main_ports [OF assms] find_port_cwd) simp

lemma find_port_returned:
  "fst (find_port e P w ports s) = Returned \<Longrightarrow>
   \<exists>p \<in> set ports. TCPServer e p = Bound \<and> serve_forever e p = KeyboardInterrupt"
proof (induction ports arbitrary: s)
  case Nil
  then show ?case by simp
next
  case (Cons p ports)
  show ?case
  proof (cases "TCPServer e p")
    case Bound
    with Cons.prems show ?thesis
      by (cases "serve_forever e p") (simp_all add: Let_def)
  next
    case (OSError n)
    with Cons.prems have "address_in_use n \<and>
        fst (find_port e P w ports (s\<lparr>bind_attempts := bind_attempts s @ [p]\<rparr>)) = Returned"
      by (simp add: Let_def split: if_splits)
    then show ?thesis using Cons.IH by auto
  qed
qed

lemma find_port_status:
  "exit_status (fst (find_port e P w ports s)) \<in> {None, Some 0, Some 1} \<and>
   (exit_status (fst (find_port e P w ports s)) = Some 0 \<longrightarrow>
      fst (find_port e P w ports s) = Returned)"
proof (induction ports arbitrary: s)
  case Nil
  then show ?case by simp
next
  case (Cons p ports)
  let ?s1 = "s\<lparr>bind_attempts := bind_attempts s @ [p]\<rparr>"
  show ?case
  proof (cases "TCPServer e p")
    case Bound
    then show ?thesis by (cases "serve_forever e p") (simp_all add: Let_def)
  next
    case (OSError n)
    show ?thesis
    proof (cases "address_in_use n")
      case True
      then have "find_port e P w (p # ports) s = find_port e P w ports ?s1"
        using OSError by (simp add: Let_def)
      then show ?thesis using Cons.IH [of ?s1] by simp
    next
      case False
      then show ?thesis using OSError by (simp add: Let_def)
    qed
  qed
qed

lemma main_cases:
  "(\<exists>s. main e = (SystemExit 1, s)) \<or> (\<exists>w s. main e = find_port e 8080 w [8080..<8090] s)"
proof -
  obtain r s where rs: "resolve_web_dir e start = (r, s)" by (cases "resolve_web_dir e start")
  show ?thesis
  proof (cases r)
    case (Inl stop)
    then have "stop = SystemExit 1" using rs by (auto simp: resolve_web_dir_def split: if_splits)
    then show ?thesis using rs Inl by (simp add: main_def)
  next
    case (Inr w)
    obtain c s' where c: "check_required e w s = (c, s')" by (cases "check_required e w s")
    show ?thesis
    proof (cases c)
      case (Inl stop)
      then have "stop = SystemExit 1" using c by (auto simp: check_required_def Let_def split: if_splits)
      then show ?thesis using rs \<open>r = Inr w\<close> c Inl by (simp add: main_def)
    next
      case (Inr u)
      have "main e = find_port e 8080 w [8080..<8090] (s'\<lparr>cwd := Some w\<rparr>)"
        using rs \<open>r = Inr w\<close> c Inr by (simp add: main_def del: find_port.simps)
      then show ?thesis by blast
    qed
  qed
qed

lemma main_status:
  "exit_status (fst (main e)) \<in> {None, Some 0, Some 1}"
  "exit_status (fst (main e)) = Some 0 \<Longrightarrow>
     \<exists>p \<in> set [8080..<8090]. TCPServer e p = Bound \<and> serve_forever e p = KeyboardInterrupt"
proof -
  from main_cases [of e] show "exit_status (fst (main e)) \<in> {None, Some 0, Some 1}"
  proof
    assume "\<exists>s. main e = (SystemExit 1, s)"
    then show ?thesis by auto
  next
    assume "\<exists>w s. main e = find_port e 8080 w [8080..<8090] s"
    then obtain w s where m: "main e = find_port e 8080 w [8080..<8090] s" by blast
    show ?thesis by (simp only: m) (rule find_port_status [THEN conjunct1])
  qed
next
  assume z: "exit_status (fst (main e)) = Some 0"
  from main_cases [of e] show
    "\<exists>p \<in> set [8080..<8090]. TCPServer e p = Bound \<and> serve_forever e p = KeyboardInterrupt"
  proof
    assume "\<exists>s. main e = (SystemExit 1, s)"
    then obtain s where "main e = (SystemExit 1, s)" by blast
    with z have False by simp
    then show ?thesis by (rule FalseE)
  next
    assume "\<exists>w s. main e = find_port e 8080 w [8080..<8090] s"
    then obtain w s where m: "main e = find_port e 8080 w [8080..<8090] s" by blast
    from z have "exit_status (fst (find_port e 8080 w [8080..<8090] s)) = Some 0"
      by (simp only: m)
    then have "fst (find_port e 8080 w [8080..<8090] s) = Returned"
      by (rule find_port_status [THEN conjunct2, rule_format])
    then show ?thesis by (rule find_port_returned)
  qed
qed

lemma main_fatal:
  assumes ok: "startup_ok e w" and lo: "8080 \<le> p" and hi: "p < 8090"
    and busy: "\<forall>q \<in> set [8080..<p]. port_in_use e q"
    and err: "TCPServer e p = OSError errno" and fatal: "\<not> address_in_use errno"
  shows "main e = (Uncaught_OSError errno,
           (snd (resolve_web_dir e start))\<lparr>cwd := Some w, bind_attempts := [8080..<p] @ [p]\<rparr>)"
  using main_reaches [OF ok lo hi busy] err fatal by (simp add: Let_def)

lemma main_interrupted:
  assumes ok: "startup_ok e w" and lo: "8080 \<le> p" and hi: "p < 8090"
    and busy: "\<forall>q \<in> set [8080..<p]. port_in_use e q"
    and b: "TCPServer e p = Bound" and i: "serve_forever e p = KeyboardInterrupt"
  shows "main e = (Returned,
           print (newline @ stop_sign @ '' Server stopped by user'')
             (banner p w ((snd (resolve_web_dir e start))\<lparr>cwd := Some w, bind_attempts := [8080..<p] @ [p]\<rparr>)))"
  using main_reaches [OF ok lo hi busy] b i by (simp add: Let_def)

subsection \<open>The directory resolver\<close>

text \<open>
  Claim C6. At startup the resolver selects \<open>test-deploy\<close> under the script's directory when
  it exists, otherwise \<open>dist\<close> when that exists; in both cases the first line printed names
  the chosen directory, and it becomes the working directory once the required files are
  found. When neither exists, the process prints that no built files were found, with the
  build command and the expected layout, and exits with status 1.
\<close>

theorem directory_resolver:
  "(path_exists e (joinpath (script_dir e) ''test-deploy'') \<longrightarrow>
      fst (resolve_web_dir e start) = Inr (joinpath (script_dir e) ''test-deploy'') \<and>
      stdout (snd (resolve_web_dir e start)) = [file_folder @ '' Serving from test-deploy directory''] \<and>
      prefix [file_folder @ '' Serving from test-deploy directory''] (stdout (snd (main e))) \<and>
      (startup_ok e (joinpath (script_dir e) ''test-deploy'') \<longrightarrow>
         cwd (snd (main e)) = Some (joinpath (script_dir e) ''test-deploy''))) \<and>
   (\<not> path_exists e (joinpath (script_dir e) ''test-deploy'') \<and>
    path_exists e (joinpath (script_dir e) ''dist'') \<longrightarrow>
      fst (resolve_web_dir e start) = Inr (joinpath (script_dir e) ''dist'') \<and>
      stdout (snd (resolve_web_dir e start)) = [file_folder @ '' Serving from dist directory''] \<and>
      prefix [file_folder @ '' Serving from dist directory''] (stdout (snd (main e))) \<and>
      (startup_ok e (joinpath (script_dir e) ''dist'') \<longrightarrow>
         cwd (snd (main e)) = Some (joinpath (script_dir e) ''dist''))) \<and>
   (\<not> path_exists e (joinpath (script_dir e) ''test-deploy'') \<and>
    \<not> path_exists e (joinpath (script_dir e) ''dist'') \<longrightarrow>
      main e =
        (SystemExit 1,
         start\<lparr>stdout :=
           [cross_mark @ '' Error: No built files found!'',
            ''   Please run 'wasm-pack build --target web --out-dir pkg --no-typescript' first'',
            ''   Then create a deployment directory with index.html and pkg/'']\<rparr>) \<and>
      exit_status (fst (main e)) = Some 1)"
proof (intro conjI impI)
  assume td: "path_exists e (joinpath (script_dir e) ''test-deploy'')"
  show r: "fst (resolve_web_dir e start) = Inr (joinpath (script_dir e) ''test-deploy'')"
    using td by (simp add: resolve_web_dir_def)
  show o: "stdout (snd (resolve_web_dir e start)) = [file_folder @ '' Serving from test-deploy directory'']"
    using td by (simp add: resolve_web_dir_def start_def)
  show "prefix [file_folder @ '' Serving from test-deploy directory''] (stdout (snd (main e)))"
    using main_stdout [OF r] o by simp
next
  assume "startup_ok e (joinpath (script_dir e) ''test-deploy'')"
  then show "cwd (snd (main e)) = Some (joinpath (script_dir e) ''test-deploy'')" by (rule main_cwd)
next
  assume d: "\<not> path_exists e (joinpath (script_dir e) ''test-deploy'') \<and>
    path_exists e (joinpath (script_dir e) ''dist'')"
  show r: "fst (resolve_web_dir e start) = Inr (joinpath (script_dir e) ''dist'')"
    using d by (simp add: resolve_web_dir_def)
  show o: "stdout (snd (resolve_web_dir e start)) = [file_folder @ '' Serving from dist directory'']"
    using d by (simp add: resolve_web_dir_def start_def)
  show "prefix [file_folder @ '' Serving from dist directory''] (stdout (snd (main e)))"
    using main_stdout [OF r] o by simp
next
  assume "startup_ok e (joinpath (script_dir e) ''dist'')"
  then show "cwd (snd (main e)) = Some (joinpath (script_dir e) ''dist'')" by (rule main_cwd)
next
  assume n: "\<not> path_exists e (joinpath (script_dir e) ''test-deploy'') \<and>
    \<not> path_exists e (joinpath (script_dir e) ''dist'')"
  then show m: "main e =
        (SystemExit 1,
         start\<lparr>stdout :=
           [cross_mark @ '' Error: No built files found!'',
            ''   Please run 'wasm-pack build --target web --out-dir pkg --no-typescript' first'',
            ''   Then create a deployment directory with index.html and pkg/'']\<rparr>)"
    using main_no_directory by blast
  show "exit_status (fst (main e)) = Some 1" by (simp add: m)
qed

theorem directory_resolver_witness:
  "path_exists env_interrupted (joinpath (script_dir env_interrupted) ''test-deploy'') \<and>
   fst (resolve_web_dir env_interrupted start) = Inr ''/srv/echoes_rpg/test-deploy'' \<and>
   stdout (snd (resolve_web_dir env_interrupted start)) =
     [file_folder @ '' Serving from test-deploy directory''] \<and>
   \<not> path_exists env_nothing_built (joinpath (script_dir env_nothing_built) ''test-deploy'') \<and>
   \<not> path_exists env_nothing_built (joinpath (script_dir env_nothing_built) ''dist'') \<and>
   exit_status (fst (main env_nothing_built)) = Some 1"
proof -
  have a: "path_exists env_interrupted (joinpath (script_dir env_interrupted) ''test-deploy'')"
    by (simp add: env_interrupted_def)
  have b: "\<not> path_exists env_nothing_built (joinpath (script_dir env_nothing_built) ''test-deploy'') \<and>
           \<not> path_exists env_nothing_built (joinpath (script_dir env_nothing_built) ''dist'')"
    by (simp add: env_nothing_built_def)
  have j: "joinpath (script_dir env_interrupted) ''test-deploy'' = ''/srv/echoes_rpg/test-deploy''"
    by (simp add: env_interrupted_def joinpath_def)
  show ?thesis
    using a b directory_resolver [of env_interrupted] directory_resolver [of env_nothing_built]
    by (simp only: j) simp
qed

subsection \<open>The artifact validator\<close>

text \<open>
  Claim C7. The validator looks for exactly \<open>index.html\<close>, \<open>pkg/echoes_rpg.js\<close> and
  \<open>pkg/echoes_rpg_bg.wasm\<close> under the chosen directory: its result depends on nothing else.
  If some are missing it prints a heading, one line for each missing path, and the advice,
  and the process exits with status 1; if none is missing it prints nothing and startup goes
  on to the port loop.
\<close>

theorem artifact_validator:
  "required_files = [''index.html'', ''pkg/echoes_rpg.js'', ''pkg/echoes_rpg_bg.wasm''] \<and>
   ((\<forall>f \<in> set required_files. path_exists e (joinpath w f) = path_exists e' (joinpath w f)) \<longrightarrow>
      check_required e w s = check_required e' w s) \<and>
   (let missing = filter (\<lambda>f. \<not> path_exists e (joinpath w f)) required_files in
      (missing \<noteq> [] \<longrightarrow>
         check_required e w s =
           (Inl (SystemExit 1),
            s\<lparr>stdout := stdout s @
                 [cross_mark @ '' Error: Missing required files:''] @
                 map (\<lambda>f. ''   - '' @ f) missing @
                 [newline @ ''   Please ensure you have built the WASM package correctly.'']\<rparr>) \<and>
         (fst (resolve_web_dir e start) = Inr w \<longrightarrow>
            fst (main e) = SystemExit 1 \<and> exit_status (fst (main e)) = Some 1 \<and>
            (\<forall>f \<in> set missing. (''   - '' @ f) \<in> set (stdout (snd (main e)))))) \<and>
      (missing = [] \<longrightarrow>
         check_required e w s = (Inr (), s) \<and>
         (fst (resolve_web_dir e start) = Inr w \<longrightarrow>
            main e = find_port e 8080 w [8080..<8090]
                       ((snd (resolve_web_dir e start))\<lparr>cwd := Some w\<rparr>))))"
proof (intro conjI impI)
  show "required_files = [''index.html'', ''pkg/echoes_rpg.js'', ''pkg/echoes_rpg_bg.wasm'']"
    by (simp add: required_files_def)
next
  assume "\<forall>f \<in> set required_files. path_exists e (joinpath w f) = path_exists e' (joinpath w f)"
  then have "filter (\<lambda>f. \<not> path_exists e (joinpath w f)) required_files
           = filter (\<lambda>f. \<not> path_exists e' (joinpath w f)) required_files"
    by (intro filter_cong) simp_all
  then show "check_required e w s = check_required e' w s"
    by (simp add: check_required_def collect_missing_filter)
next
  let ?missing = "filter (\<lambda>f. \<not> path_exists e (joinpath w f)) required_files"
  have stop: "check_required e w s =
           (Inl (SystemExit 1),
            s\<lparr>stdout := stdout s @
                 [cross_mark @ '' Error: Missing required files:''] @
                 map (\<lambda>f. ''   - '' @ f) ?missing @
                 [newline @ ''   Please ensure you have built the WASM package correctly.'']\<rparr>)"
    if "?missing \<noteq> []" for s
    using that by (simp add: check_required_def collect_missing_filter print_missing_stdout print_def)
  have main_stop: "fst (main e) = SystemExit 1 \<and> exit_status (fst (main e)) = Some 1 \<and>
            (\<forall>f \<in> set ?missing. (''   - '' @ f) \<in> set (stdout (snd (main e))))"
    if m: "?missing \<noteq> []" and r: "fst (resolve_web_dir e start) = Inr w"
  proof -
    obtain s0 where rs: "resolve_web_dir e start = (Inr w, s0)"
      using r by (cases "resolve_web_dir e start") simp
    have "main e = (SystemExit 1,
            s0\<lparr>stdout := stdout s0 @
                 [cross_mark @ '' Error: Missing required files:''] @
                 map (\<lambda>f. ''   - '' @ f) ?missing @
                 [newline @ ''   Please ensure you have built the WASM package correctly.'']\<rparr>)"
      using rs stop [OF m, of s0] by (simp add: main_def)
    then show ?thesis by simp
  qed
  have pass: "check_required e w s = (Inr (), s)" if "?missing = []" for s
    using that by (simp add: check_required_def collect_missing_filter)
  have main_pass: "main e = find_port e 8080 w [8080..<8090]
                       ((snd (resolve_web_dir e start))\<lparr>cwd := Some w\<rparr>)"
    if m: "?missing = []" and r: "fst (resolve_web_dir e start) = Inr w"
  proof -
    from m have "\<forall>f \<in> set required_files. path_exists e (joinpath w f)"
      by (simp add: filter_empty_conv)
    with r have "startup_ok e w" by (simp add: startup_ok_def)
    then show ?thesis by (rule main_ports)
  qed
  show "let missing = ?missing in
      (missing \<noteq> [] \<longrightarrow>
         check_required e w s =
           (Inl (SystemExit 1),
            s\<lparr>stdout := stdout s @
                 [cross_mark @ '' Error: Missing required files:''] @
                 map (\<lambda>f. ''   - '' @ f) missing @
                 [newline @ ''   Please ensure you have built the WASM package correctly.'']\<rparr>) \<and>
         (fst (resolve_web_dir e start) = Inr w \<longrightarrow>
            fst (main e) = SystemExit 1 \<and> exit_status (fst (main e)) = Some 1 \<and>
            (\<forall>f \<in> set missing. (''   - '' @ f) \<in> set (stdout (snd (main e)))))) \<and>
      (missing = [] \<longrightarrow>
         check_required e w s = (Inr (), s) \<and>
         (fst (resolve_web_dir e start) = Inr w \<longrightarrow>
            main e = find_port e 8080 w [8080..<8090]
                       ((snd (resolve_web_dir e start))\<lparr>cwd := Some w\<rparr>)))"
    unfolding Let_def using stop main_stop pass main_pass by blast
qed

theorem artifact_validator_witness:
  "filter (\<lambda>f. \<not> path_exists env_missing_wasm (joinpath ''/srv/echoes_rpg/test-deploy'' f)) required_files
     = [''pkg/echoes_rpg_bg.wasm''] \<and>
   fst (resolve_web_dir env_missing_wasm start) = Inr ''/srv/echoes_rpg/test-deploy'' \<and>
   fst (main env_missing_wasm) = SystemExit 1 \<and>
   ''   - pkg/echoes_rpg_bg.wasm'' \<in> set (stdout (snd (main env_missing_wasm)))"
proof -
  have m: "filter (\<lambda>f. \<not> path_exists env_missing_wasm (joinpath ''/srv/echoes_rpg/test-deploy'' f)) required_files
     = [''pkg/echoes_rpg_bg.wasm'']"
    by (simp add: env_missing_wasm_def required_files_def joinpath_def)
  have r: "fst (resolve_web_dir env_missing_wasm start) = Inr ''/srv/echoes_rpg/test-deploy''"
    by (simp add: env_missing_wasm_def resolve_web_dir_def joinpath_def)
  show ?thesis
    using m r artifact_validator [of env_missing_wasm "''/srv/echoes_rpg/test-deploy''" env_missing_wasm start]
    by (simp add: Let_def)
qed

subsection \<open>The port binder\<close>

text \<open>
  Claim C4. Once startup has passed the checks, the ports tried are an initial segment of
  8080, 8081, ..., 8089, in this order. If every port before \<open>p\<close> is in use and \<open>p\<close> binds,
  the attempts stop at \<open>p\<close>, the banner reports \<open>p\<close>, and the server serves on \<open>p\<close> (until
  interrupted). If all ten are in use, all ten are tried, the last line printed is the
  diagnostic naming port 8080, and the process exits with status 1.
\<close>

theorem port_binder:
  assumes ok: "startup_ok e w"
  shows "prefix (bind_attempts (snd (main e))) [8080..<8090] \<and>
    (\<forall>p. 8080 \<le> p \<and> p < 8090 \<and> (\<forall>q \<in> set [8080..<p]. port_in_use e q) \<and> TCPServer e p = Bound \<longrightarrow>
       bind_attempts (snd (main e)) = [8080..<p] @ [p] \<and>
       (globe @ '' Server running at: http://localhost:'' @ str p) \<in> set (stdout (snd (main e))) \<and>
       fst (main e) = (case serve_forever e p of KeyboardInterrupt \<Rightarrow> Returned | Serves_on \<Rightarrow> Serving p)) \<and>
    ((\<forall>q \<in> set [8080..<8090]. port_in_use e q) \<longrightarrow>
       bind_attempts (snd (main e)) = [8080..<8090] \<and>
       last (stdout (snd (main e))) =
         cross_mark @ '' Error: Could not find an available port starting from 8080'' \<and>
       fst (main e) = SystemExit 1 \<and> exit_status (fst (main e)) = Some 1)"
proof (intro conjI allI impI)
  show "prefix (bind_attempts (snd (main e))) [8080..<8090]" by (rule main_attempts)
next
  fix p
  assume p: "8080 \<le> p \<and> p < 8090 \<and> (\<forall>q \<in> set [8080..<p]. port_in_use e q) \<and> TCPServer e p = Bound"
  then have m: "main e = find_port e 8080 w (p # [Suc p..<8090])
                    ((snd (resolve_web_dir e start))\<lparr>cwd := Some w, bind_attempts := [8080..<p]\<rparr>)"
    using main_reaches [OF ok] by blast
  from p have b: "TCPServer e p = Bound" by simp
  show "bind_attempts (snd (main e)) = [8080..<p] @ [p]"
    using m b by (cases "serve_forever e p") (simp_all add: Let_def banner_fields)
  show "(globe @ '' Server running at: http://localhost:'' @ str p) \<in> set (stdout (snd (main e)))"
    using m b banner_fields(4) by (cases "serve_forever e p") (simp_all add: Let_def)
  show "fst (main e) = (case serve_forever e p of KeyboardInterrupt \<Rightarrow> Returned | Serves_on \<Rightarrow> Serving p)"
    using m b by (cases "serve_forever e p") (simp_all add: Let_def)
next
  assume busy: "\<forall>q \<in> set [8080..<8090]. port_in_use e q"
  note m = main_exhausted [OF ok busy]
  have s: "str 8080 = ''8080''" by (simp add: str.simps digit_def)
  show "bind_attempts (snd (main e)) = [8080..<8090]" using m by simp
  show "last (stdout (snd (main e))) =
         cross_mark @ '' Error: Could not find an available port starting from 8080''"
    using m s by simp
  show "fst (main e) = SystemExit 1" using m by simp
  then show "exit_status (fst (main e)) = Some 1" by simp
qed

theorem port_binder_witness:
  "startup_ok env_port_taken ''/srv/echoes_rpg/dist'' \<and>
   port_in_use env_port_taken 8080 \<and> TCPServer env_port_taken 8081 = Bound \<and>
   bind_attempts (snd (main env_port_taken)) = [8080, 8081] \<and>
   (globe @ '' Server running at: http://localhost:8081'') \<in> set (stdout (snd (main env_port_taken))) \<and>
   fst (main env_port_taken) = Serving 8081 \<and>
   startup_ok env_ports_exhausted ''/srv/echoes_rpg/test-deploy'' \<and>
   list_all (port_in_use env_ports_exhausted) [8080..<8090] \<and>
   length (bind_attempts (snd (main env_ports_exhausted))) = 10 \<and>
   last (stdout (snd (main env_ports_exhausted))) =
     cross_mark @ '' Error: Could not find an available port starting from 8080'' \<and>
   exit_status (fst (main env_ports_exhausted)) = Some 1"
proof -
  have ok: "startup_ok env_port_taken ''/srv/echoes_rpg/dist''"
    by (simp add: startup_ok_def env_port_taken_def resolve_web_dir_def joinpath_def
          required_files_def)
  have taken: "port_in_use env_port_taken 8080"
    by (simp add: port_in_use_def env_port_taken_def address_in_use_def)
  have p: "8080 \<le> (8081::nat) \<and> (8081::nat) < 8090 \<and>
           (\<forall>q \<in> set [8080..<8081]. port_in_use env_port_taken q) \<and>
           TCPServer env_port_taken 8081 = Bound"
    using taken by (simp add: env_port_taken_def)
  have s: "str 8081 = ''8081''" by (simp add: str.simps digit_def)
  have u: "[8080..<8081] @ [8081] = [8080, 8081::nat]" by simp
  have v: "serve_forever env_port_taken 8081 = Serves_on" by (simp add: env_port_taken_def)
  from port_binder [OF ok] have
    "bind_attempts (snd (main env_port_taken)) = [8080..<8081] @ [8081] \<and>
       (globe @ '' Server running at: http://localhost:'' @ str 8081)
          \<in> set (stdout (snd (main env_port_taken))) \<and>
       fst (main env_port_taken) =
         (case serve_forever env_port_taken 8081 of
            KeyboardInterrupt \<Rightarrow> Returned | Serves_on \<Rightarrow> Serving 8081)"
    using p by blast
  then have first: "bind_attempts (snd (main env_port_taken)) = [8080, 8081] \<and>
   (globe @ '' Server running at: http://localhost:8081'') \<in> set (stdout (snd (main env_port_taken))) \<and>
   fst (main env_port_taken) = Serving 8081"
    using s u v by simp
  have ok': "startup_ok env_ports_exhausted ''/srv/echoes_rpg/test-deploy''"
    by (simp add: startup_ok_def env_ports_exhausted_def resolve_web_dir_def joinpath_def
          required_files_def)
  have busy: "\<forall>q \<in> set [8080..<8090]. port_in_use env_ports_exhausted q"
    by (simp add: port_in_use_def env_ports_exhausted_def address_in_use_def)
  from port_binder [OF ok'] busy have
    "bind_attempts (snd (main env_ports_exhausted)) = [8080..<8090] \<and>
       last (stdout (snd (main env_ports_exhausted))) =
         cross_mark @ '' Error: Could not find an available port starting from 8080'' \<and>
       fst (main env_ports_exhausted) = SystemExit 1 \<and>
       exit_status (fst (main env_ports_exhausted)) = Some 1"
    by blast
  then have second: "length (bind_attempts (snd (main env_ports_exhausted))) = 10 \<and>
   last (stdout (snd (main env_ports_exhausted))) =
     cross_mark @ '' Error: Could not find an available port starting from 8080'' \<and>
   exit_status (fst (main env_ports_exhausted)) = Some 1"
    by simp
  have all: "list_all (port_in_use env_ports_exhausted) [8080..<8090]"
    using busy by (simp only: list_all_iff)
  show ?thesis using ok taken p first ok' all second by blast
qed

text \<open>
  Claim C8. A failure to bind that line 99 does not take for address-in-use is fatal at
  once: the \<open>OSError\<close> leaves \<open>main\<close> uncaught, the process ends with status 1, no port
  after the failing one is tried, and nothing more is printed.
\<close>

theorem fatal_bind_error:
  assumes "startup_ok e w" and "8080 \<le> p" and "p < 8090"
    and "\<forall>q \<in> set [8080..<p]. port_in_use e q"
    and "TCPServer e p = OSError errno" and "\<not> address_in_use errno"
  shows "fst (main e) = Uncaught_OSError errno \<and>
         exit_status (fst (main e)) = Some 1 \<and>
         bind_attempts (snd (main e)) = [8080..<p] @ [p] \<and>
         (\<forall>q \<in> set (bind_attempts (snd (main e))). q \<le> p) \<and>
         stdout (snd (main e)) = stdout (snd (resolve_web_dir e start))"
proof -
  note m = main_fatal [OF assms]
  show ?thesis by (auto simp: m)
qed

theorem fatal_bind_error_witness:
  "startup_ok env_permission_denied ''/srv/echoes_rpg/test-deploy'' \<and>
   port_in_use env_permission_denied 8080 \<and>
   TCPServer env_permission_denied 8081 = OSError 13 \<and> \<not> address_in_use 13 \<and>
   fst (main env_permission_denied) = Uncaught_OSError 13 \<and>
   exit_status (fst (main env_permission_denied)) = Some 1 \<and>
   bind_attempts (snd (main env_permission_denied)) = [8080, 8081]"
proof -
  have ok: "startup_ok env_permission_denied ''/srv/echoes_rpg/test-deploy''"
    by (simp add: startup_ok_def env_permission_denied_def resolve_web_dir_def joinpath_def
          required_files_def)
  have busy: "\<forall>q \<in> set [8080..<8081]. port_in_use env_permission_denied q"
    by (simp add: port_in_use_def env_permission_denied_def address_in_use_def)
  have err: "TCPServer env_permission_denied 8081 = OSError 13"
    by (simp add: env_permission_denied_def)
  have fatal: "\<not> address_in_use 13" by (simp add: address_in_use_def)
  have lo: "8080 \<le> (8081::nat)" and hi: "(8081::nat) < 8090" by simp_all
  show ?thesis
    using ok busy err fatal fatal_bind_error [OF ok lo hi busy err fatal] by simp
qed

subsection \<open>Exit statuses\<close>

text \<open>
  Claim C9. When the serving server is interrupted from the keyboard, the process prints the
  notice that the server was stopped, \<open>main\<close> returns, and the exit status is 0. Each
  startup failure (no build directory, a required file missing, all ports in use, a fatal
  bind error) gives exit status 1. Status 0 arises in no other way than by the interrupt, and
  no other status than 0 and 1 arises.
\<close>

theorem exit_codes:
  "(\<forall>w p. startup_ok e w \<and> 8080 \<le> p \<and> p < 8090 \<and> (\<forall>q \<in> set [8080..<p]. port_in_use e q) \<and>
          TCPServer e p = Bound \<and> serve_forever e p = KeyboardInterrupt \<longrightarrow>
      fst (main e) = Returned \<and> exit_status (fst (main e)) = Some 0 \<and>
      last (stdout (snd (main e))) = newline @ stop_sign @ '' Server stopped by user'') \<and>
   (\<not> path_exists e (joinpath (script_dir e) ''test-deploy'') \<and>
    \<not> path_exists e (joinpath (script_dir e) ''dist'') \<longrightarrow>
      exit_status (fst (main e)) = Some 1) \<and>
   (\<forall>w. fst (resolve_web_dir e start) = Inr w \<and>
        (\<exists>f \<in> set required_files. \<not> path_exists e (joinpath w f)) \<longrightarrow>
      exit_status (fst (main e)) = Some 1) \<and>
   (\<forall>w. startup_ok e w \<and> (\<forall>q \<in> set [8080..<8090]. port_in_use e q) \<longrightarrow>
      exit_status (fst (main e)) = Some 1) \<and>
   (\<forall>w p errno. startup_ok e w \<and> 8080 \<le> p \<and> p < 8090 \<and> (\<forall>q \<in> set [8080..<p]. port_in_use e q) \<and>
          TCPServer e p = OSError errno \<and> \<not> address_in_use errno \<longrightarrow>
      exit_status (fst (main e)) = Some 1) \<and>
   (exit_status (fst (main e)) = Some 0 \<longrightarrow>
      (\<exists>p \<in> set [8080..<8090]. TCPServer e p = Bound \<and> serve_forever e p = KeyboardInterrupt)) \<and>
   exit_status (fst (main e)) \<in> {None, Some 0, Some 1}"
proof (intro conjI allI impI)
  fix w p
  assume a: "startup_ok e w \<and> 8080 \<le> p \<and> p < 8090 \<and> (\<forall>q \<in> set [8080..<p]. port_in_use e q) \<and>
          TCPServer e p = Bound \<and> serve_forever e p = KeyboardInterrupt"
  then have m: "main e = (Returned,
           print (newline @ stop_sign @ '' Server stopped by user'')
             (banner p w ((snd (resolve_web_dir e start))\<lparr>cwd := Some w, bind_attempts := [8080..<p] @ [p]\<rparr>)))"
    using main_interrupted by blast
  show "fst (main e) = Returned" by (simp add: m)
  show "exit_status (fst (main e)) = Some 0" by (simp add: m)
  show "last (stdout (snd (main e))) = newline @ stop_sign @ '' Server stopped by user''"
    by (simp add: m)
next
  assume "\<not> path_exists e (joinpath (script_dir e) ''test-deploy'') \<and>
    \<not> path_exists e (joinpath (script_dir e) ''dist'')"
  then show "exit_status (fst (main e)) = Some 1"
    using main_no_directory [of e] by simp
next
  fix w
  assume a: "fst (resolve_web_dir e start) = Inr w \<and>
        (\<exists>f \<in> set required_files. \<not> path_exists e (joinpath w f))"
  then obtain s where rs: "resolve_web_dir e start = (Inr w, s)"
    by (cases "resolve_web_dir e start") simp
  from a have "filter (\<lambda>f. \<not> path_exists e (joinpath w f)) required_files \<noteq> []"
    by (simp add: filter_empty_conv)
  then have "fst (check_required e w s) = Inl (SystemExit 1)"
    by (simp add: check_required_def collect_missing_filter)
  then show "exit_status (fst (main e)) = Some 1"
    using rs by (cases "check_required e w s") (simp add: main_def)
next
  fix w
  assume "startup_ok e w \<and> (\<forall>q \<in> set [8080..<8090]. port_in_use e q)"
  then show "exit_status (fst (main e)) = Some 1"
    using main_exhausted [of e w] by simp
next
  fix w p errno
  assume "startup_ok e w \<and> 8080 \<le> p \<and> p < 8090 \<and> (\<forall>q \<in> set [8080..<p]. port_in_use e q) \<and>
          TCPServer e p = OSError errno \<and> \<not> address_in_use errno"
  then show "exit_status (fst (main e)) = Some 1"
    using main_fatal [of e w p errno] by simp
next
  assume "exit_status (fst (main e)) = Some 0"
  then show "\<exists>p \<in> set [8080..<8090]. TCPServer e p = Bound \<and> serve_forever e p = KeyboardInterrupt"
    by (rule main_status(2))
next
  show "exit_status (fst (main e)) \<in> {None, Some 0, Some 1}" by (rule main_status(1))
qed

theorem exit_codes_witness:
  "startup_ok env_interrupted ''/srv/echoes_rpg/test-deploy'' \<and>
   TCPServer env_interrupted 8080 = Bound \<and>
   serve_forever env_interrupted 8080 = KeyboardInterrupt \<and>
   fst (main env_interrupted) = Returned \<and>
   exit_status (fst (main env_interrupted)) = Some 0 \<and>
   last (stdout (snd (main env_interrupted))) = newline @ stop_sign @ '' Server stopped by user''"
proof -
  have ok: "startup_ok env_interrupted ''/srv/echoes_rpg/test-deploy''"
    by (simp add: startup_ok_def env_interrupted_def resolve_web_dir_def joinpath_def
          required_files_def)
  have b: "TCPServer env_interrupted 8080 = Bound"
    and i: "serve_forever env_interrupted 8080 = KeyboardInterrupt"
    by (simp_all add: env_interrupted_def)
  have "startup_ok env_interrupted ''/srv/echoes_rpg/test-deploy'' \<and> 8080 \<le> (8080::nat) \<and>
        (8080::nat) < 8090 \<and> (\<forall>q \<in> set [8080..<8080]. port_in_use env_interrupted q) \<and>
        TCPServer env_interrupted 8080 = Bound \<and>
        serve_forever env_interrupted 8080 = KeyboardInterrupt"
    using ok b i by simp
  then show ?thesis
    using exit_codes [of env_interrupted] ok b i by blast
qed

section \<open>Properties of the request handler\<close>

subsection \<open>Auxiliary facts\<close>

lemma lower_names:
  "lower ''Content-Type'' = ''content-type''"
  "lower ''Content-type'' = ''content-type''"
  "lower ''Server'' \<noteq> ''content-type''"
  "lower ''Date'' \<noteq> ''content-type''"
  "lower ''Connection'' \<noteq> ''content-type''"
  "lower ''Content-Length'' \<noteq> ''content-type''"
  "lower ''Last-Modified'' \<noteq> ''content-type''"
  "lower ''Access-Control-Allow-Origin'' \<noteq> ''content-type''"
  "lower ''Access-Control-Allow-Methods'' \<noteq> ''content-type''"
  "lower ''Access-Control-Allow-Headers'' \<noteq> ''content-type''"
  by (simp_all add: lower_def)

lemma request_fields [simp]:
  "headers_buffer (request cmd target v d) = []"
  "command (request cmd target v d) = cmd"
  "path (request cmd target v d) = Some target"
  "response_code (request cmd target v d) = None"
  "headers_ended (request cmd target v d) = False"
  "wfile (request cmd target v d) = []"
  "opened (request cmd target v d) = []"
  "version_string (request cmd target v d) = v"
  "date_time_string (request cmd target v d) = d"
  by (simp_all add: request_def unparsed_def)

lemma unparsed_fields [simp]:
  "headers_buffer (unparsed v d) = []"
  "command (unparsed v d) = []"
  "path (unparsed v d) = None"
  "wfile (unparsed v d) = []"
  by (simp_all add: unparsed_def)

lemma send_response_eq:
  "send_response code h =
     h\<lparr>response_code := Some code,
       headers_buffer :=
         headers_buffer h @ [(''Server'', version_string h), (''Date'', date_time_string h)]\<rparr>"
  by (simp add: send_response_def send_header_def)

lemma end_headers_Some:
  "path h = Some p \<Longrightarrow>
   end_headers h =
     Inr (h\<lparr>headers_buffer :=
              headers_buffer h @ cors_headers @
              map (Pair ''Content-Type'') (suffix_content_type p),
            headers_ended := True\<rparr>)"
  by (simp add: end_headers_def Let_def send_header_def super_end_headers_def cors_headers_def
        suffix_content_type_def)

lemma end_headers_None: "path h = None \<Longrightarrow> end_headers h = Inl AttributeError"
  by (simp add: end_headers_def Let_def send_header_def)

lemma do_OPTIONS_Some:
  "path h = Some p \<Longrightarrow>
   do_OPTIONS h =
     Inr (h\<lparr>response_code := Some 200,
            headers_buffer :=
              headers_buffer h @ [(''Server'', version_string h), (''Date'', date_time_string h)] @
              cors_headers @ map (Pair ''Content-Type'') (suffix_content_type p),
            headers_ended := True\<rparr>)"
  by (simp add: do_OPTIONS_def send_response_eq end_headers_Some)

lemma send_error_Some:
  "path h = Some p \<Longrightarrow>
   send_error site code h =
     Inr (h\<lparr>response_code := Some code,
            headers_buffer :=
              headers_buffer h @
              [(''Server'', version_string h), (''Date'', date_time_string h),
               (''Connection'', ''close''), (''Content-Type'', error_content_type site),
               (''Content-Length'', str (length (error_page site code)))] @
              cors_headers @ map (Pair ''Content-Type'') (suffix_content_type p),
            headers_ended := True,
            wfile := wfile h @ (if command h \<noteq> ''HEAD'' then error_page site code else [])\<rparr>)"
  by (simp add: send_error_def Let_def send_response_eq send_header_def end_headers_Some)

lemma send_error_None: "path h = None \<Longrightarrow> send_error site code h = Inl AttributeError"
  by (simp add: send_error_def Let_def send_response_eq send_header_def end_headers_None)

lemma send_head_found:
  "path h = Some t \<Longrightarrow> files site (translate_path site t) = Some f \<Longrightarrow>
   send_head site h =
     Inr (h\<lparr>opened := opened h @ [translate_path site t],
            response_code := Some 200,
            headers_buffer :=
              headers_buffer h @
              [(''Server'', version_string h), (''Date'', date_time_string h),
               (''Content-type'', guess_type site (translate_path site t)),
               (''Content-Length'', str (length (content f))),
               (''Last-Modified'', last_modified f)] @
              cors_headers @ map (Pair ''Content-Type'') (suffix_content_type t),
            headers_ended := True\<rparr>,
          Some f)"
  by (simp add: send_head_def Let_def send_response_eq send_header_def end_headers_Some)

lemma send_head_missing:
  "path h = Some t \<Longrightarrow> files site (translate_path site t) = None \<Longrightarrow>
   send_head site h =
     map_sum id (\<lambda>r. (r, None))
       (send_error site 404 (h\<lparr>opened := opened h @ [translate_path site t]\<rparr>))"
  by (simp add: send_head_def Let_def split: sum.splits)

lemma do_GET_found:
  "path h = Some t \<Longrightarrow> files site (translate_path site t) = Some f \<Longrightarrow>
   do_GET site h =
     Inr (h\<lparr>opened := opened h @ [translate_path site t],
            response_code := Some 200,
            headers_buffer :=
              headers_buffer h @
              [(''Server'', version_string h), (''Date'', date_time_string h),
               (''Content-type'', guess_type site (translate_path site t)),
               (''Content-Length'', str (length (content f))),
               (''Last-Modified'', last_modified f)] @
              cors_headers @ map (Pair ''Content-Type'') (suffix_content_type t),
            headers_ended := True,
            wfile := wfile h @ content f\<rparr>)"
  by (simp add: do_GET_def send_head_found)

lemma do_GET_missing:
  "path h = Some t \<Longrightarrow> files site (translate_path site t) = None \<Longrightarrow>
   do_GET site h = send_error site 404 (h\<lparr>opened := opened h @ [translate_path site t]\<rparr>)"
  by (simp add: do_GET_def send_head_missing send_error_Some)

lemma do_HEAD_found:
  "path h = Some t \<Longrightarrow> files site (translate_path site t) = Some f \<Longrightarrow>
   do_HEAD site h =
     Inr (h\<lparr>opened := opened h @ [translate_path site t],
            response_code := Some 200,
            headers_buffer :=
              headers_buffer h @
              [(''Server'', version_string h), (''Date'', date_time_string h),
               (''Content-type'', guess_type site (translate_path site t)),
               (''Content-Length'', str (length (content f))),
               (''Last-Modified'', last_modified f)] @
              cors_headers @ map (Pair ''Content-Type'') (suffix_content_type t),
            headers_ended := True\<rparr>)"
  by (simp add: do_HEAD_def send_head_found)

lemma do_HEAD_missing:
  "path h = Some t \<Longrightarrow> files site (translate_path site t) = None \<Longrightarrow>
   do_HEAD site h = send_error site 404 (h\<lparr>opened := opened h @ [translate_path site t]\<rparr>)"
  by (simp add: do_HEAD_def send_head_missing send_error_Some)

lemma cors_not_content_type:
  "filter (\<lambda>h. lower (fst h) = ''content-type'') cors_headers = []"
  by (simp add: cors_headers_def lower_names)

lemma suffix_is_content_type:
  "filter (\<lambda>h. lower (fst h) = ''content-type'') (map (Pair ''Content-Type'') ts) = map (Pair ''Content-Type'') ts"
  by (induction ts) (simp_all add: lower_names)

lemma content_types_buffer:
  "headers_buffer h = base @ cors_headers @ map (Pair ''Content-Type'') ts \<Longrightarrow>
   content_types h = map snd (filter (\<lambda>h. lower (fst h) = ''content-type'') base) @ ts"
  by (simp add: content_types_def cors_not_content_type suffix_is_content_type comp_def)

lemma endswith_last:
  "endswith p s \<Longrightarrow> s \<noteq> [] \<Longrightarrow> p \<noteq> [] \<and> last p = last s"
  by (auto simp: endswith_def suffix_def)

lemma endswith_exclusive:
  "endswith p ''.wasm'' \<Longrightarrow> \<not> endswith p ''.js''"
  "endswith p ''.wasm'' \<Longrightarrow> \<not> endswith p ''.html''"
  "endswith p ''.js'' \<Longrightarrow> \<not> endswith p ''.html''"
  by (auto dest!: endswith_last)

lemma suffix_content_type_cases:
  "endswith p ''.wasm'' \<Longrightarrow> suffix_content_type p = [''application/wasm'']"
  "endswith p ''.js'' \<Longrightarrow> suffix_content_type p = [''application/javascript'']"
  "endswith p ''.html'' \<Longrightarrow> suffix_content_type p = [''text/html; charset=utf-8'']"
  "\<not> endswith p ''.wasm'' \<Longrightarrow> \<not> endswith p ''.js'' \<Longrightarrow> \<not> endswith p ''.html'' \<Longrightarrow>
     suffix_content_type p = []"
  using endswith_exclusive [of p] by (auto simp: suffix_content_type_def)

lemma cors_filter:
  "filter (\<lambda>h. prefix ''Access-Control-'' (fst h)) cors_headers = cors_headers"
  "filter (\<lambda>h. prefix ''Access-Control-'' (fst h)) (map (Pair ''Content-Type'') ts) = []"
  by (simp_all add: cors_headers_def)

text \<open>The answer to a parsed request, by its method and by what is found for its path.\<close>

lemma handle_options:
  "handle site (request ''OPTIONS'' target v d) =
     Inr ((request ''OPTIONS'' target v d)
            \<lparr>response_code := Some 200,
              headers_buffer :=
                [(''Server'', v), (''Date'', d)] @
                cors_headers @ map (Pair ''Content-Type'') (suffix_content_type target),
              headers_ended := True\<rparr>)"
  using do_OPTIONS_Some [of "request ''OPTIONS'' target v d" target]
  by (simp add: handle_def)

lemma handle_get_found:
  assumes "files site (translate_path site target) = Some f"
  shows "handle site (request ''GET'' target v d) =
     Inr ((request ''GET'' target v d)
            \<lparr>opened := [translate_path site target],
              response_code := Some 200,
              headers_buffer :=
                [(''Server'', v), (''Date'', d),
                 (''Content-type'', guess_type site (translate_path site target)),
                 (''Content-Length'', str (length (content f))),
                 (''Last-Modified'', last_modified f)] @
                cors_headers @ map (Pair ''Content-Type'') (suffix_content_type target),
              headers_ended := True,
              wfile := content f\<rparr>)"
  using do_GET_found [of "request ''GET'' target v d" target site f] assms
  by (simp add: handle_def)

lemma handle_get_missing:
  assumes "files site (translate_path site target) = None"
  shows "handle site (request ''GET'' target v d) =
     Inr ((request ''GET'' target v d)
            \<lparr>opened := [translate_path site target],
              response_code := Some 404,
              headers_buffer :=
                [(''Server'', v), (''Date'', d), (''Connection'', ''close''),
                 (''Content-Type'', error_content_type site),
                 (''Content-Length'', str (length (error_page site 404)))] @
                cors_headers @ map (Pair ''Content-Type'') (suffix_content_type target),
              headers_ended := True,
              wfile := error_page site 404\<rparr>)"
  using do_GET_missing [of "request ''GET'' target v d" target site] assms
    send_error_Some [of "(request ''GET'' target v d)\<lparr>opened := [translate_path site target]\<rparr>"
      target site 404]
  by (simp add: handle_def)

text \<open>
  Every answer to a parsed request: the headers of the inherited handler, then the three,
  then the suffix's.
\<close>

lemma handle_headers:
  "\<exists>r base. handle site (request cmd target v d) = Inr r \<and>
         headers_buffer r =
           base @ cors_headers @ map (Pair ''Content-Type'') (suffix_content_type target) \<and>
         filter (\<lambda>h. prefix ''Access-Control-'' (fst h)) base = [] \<and>
         headers_ended r"
proof -
  let ?h = "request cmd target v d"
  let ?p = "translate_path site target"
  have p: "path ?h = Some target" by simp
  have po: "path (?h\<lparr>opened := opened ?h @ [?p]\<rparr>) = Some target" by simp
  consider (options) "cmd = ''OPTIONS''"
    | (found) f where "cmd \<noteq> ''OPTIONS''" "cmd = ''GET'' \<or> cmd = ''HEAD''" "files site ?p = Some f"
    | (missing) "cmd \<noteq> ''OPTIONS''" "cmd = ''GET'' \<or> cmd = ''HEAD''" "files site ?p = None"
    | (other) "cmd \<noteq> ''OPTIONS''" "cmd \<noteq> ''GET''" "cmd \<noteq> ''HEAD''"
    by (cases "files site ?p") auto
  then show ?thesis
  proof cases
    case options
    then show ?thesis using do_OPTIONS_Some [OF p] by (simp add: handle_def)
  next
    case found
    from found(2) show ?thesis
    proof
      assume "cmd = ''GET''"
      then show ?thesis using do_GET_found [OF p found(3)] by (simp add: handle_def)
    next
      assume "cmd = ''HEAD''"
      then show ?thesis using do_HEAD_found [OF p found(3)] by (simp add: handle_def)
    qed
  next
    case missing
    from missing(2) show ?thesis
    proof
      assume "cmd = ''GET''"
      then show ?thesis
        using do_GET_missing [OF p missing(3)] send_error_Some [OF po, of site 404]
        by (simp add: handle_def)
    next
      assume "cmd = ''HEAD''"
      then show ?thesis
        using do_HEAD_missing [OF p missing(3)] send_error_Some [OF po, of site 404]
        by (simp add: handle_def)
    qed
  next
    case other
    then show ?thesis using send_error_Some [OF p, of site 501] by (simp add: handle_def)
  qed
qed

lemma cors_headers_on_parsed_requests:
  "\<exists>r. handle site (request cmd target v d) = Inr r \<and>
       filter (\<lambda>h. prefix ''Access-Control-'' (fst h)) (headers_buffer r) = cors_headers \<and>
       headers_ended r"
proof -
  obtain r base where b: "handle site (request cmd target v d) = Inr r"
      "headers_buffer r =
           base @ cors_headers @ map (Pair ''Content-Type'') (suffix_content_type target)"
      "filter (\<lambda>h. prefix ''Access-Control-'' (fst h)) base = []"
      "headers_ended r"
    using handle_headers by blast
  have "filter (\<lambda>h. prefix ''Access-Control-'' (fst h)) (headers_buffer r) = cors_headers"
    by (simp add: b(2,3) cors_filter)
  then show ?thesis using b(1,4) by blast
qed

lemma over_long_request_line_length: "length over_long_request_line = 70014"
  by (simp add: over_long_request_line_def)

subsection \<open>The headers that grant cross-origin access\<close>

text \<open>
  Claim C2. Every response should carry the three headers
  \<open>Access-Control-Allow-Origin: *\<close>, \<open>Access-Control-Allow-Methods: GET, POST, OPTIONS\<close> and
  \<open>Access-Control-Allow-Headers: *\<close>. The code sends them on every answer to a request that
  the library has parsed, whatever its method and path and whether or not a file is found:
  these, once each and with these values, are all the headers of the answer whose name starts
  with \<open>Access-Control-\<close>. It misses the requests that the library refuses before it has set
  \<open>self.path\<close>, among them every request line of more than 65536 bytes: the library answers
  them through \<open>send_error\<close>, line 23 raises \<open>AttributeError\<close>, and no header is sent at all.
\<close>

theorem cors_headers_unless_refused:
  "(length raw > 65536 \<or> (\<exists>code. parse_request raw = Refused code) \<longrightarrow>
      handle_one_request parse_request site raw (unparsed v d) = Inl AttributeError) \<and>
   (\<forall>cmd target. length raw \<le> 65536 \<and> parse_request raw = Accepted cmd target \<longrightarrow>
      (\<exists>r. handle_one_request parse_request site raw (unparsed v d) = Inr r \<and>
           filter (\<lambda>h. prefix ''Access-Control-'' (fst h)) (headers_buffer r) =
             [(''Access-Control-Allow-Origin'', ''*''),
              (''Access-Control-Allow-Methods'', ''GET, POST, OPTIONS''),
              (''Access-Control-Allow-Headers'', ''*'')] \<and>
           headers_ended r)) \<and>
   handle_one_request parse_request site over_long_request_line (unparsed v d) =
     Inl AttributeError"
proof (intro conjI allI impI)
  assume "length raw > 65536 \<or> (\<exists>code. parse_request raw = Refused code)"
  then show "handle_one_request parse_request site raw (unparsed v d) = Inl AttributeError"
    by (auto simp: handle_one_request_def send_error_None)
next
  fix cmd target
  assume a: "length raw \<le> 65536 \<and> parse_request raw = Accepted cmd target"
  have u: "(unparsed v d)\<lparr>command := cmd, path := Some target\<rparr> = request cmd target v d"
    by (simp add: request_def)
  have "handle_one_request parse_request site raw (unparsed v d) =
          handle site (request cmd target v d)"
    using a by (simp add: handle_one_request_def u)
  then show "\<exists>r. handle_one_request parse_request site raw (unparsed v d) = Inr r \<and>
           filter (\<lambda>h. prefix ''Access-Control-'' (fst h)) (headers_buffer r) =
             [(''Access-Control-Allow-Origin'', ''*''),
              (''Access-Control-Allow-Methods'', ''GET, POST, OPTIONS''),
              (''Access-Control-Allow-Headers'', ''*'')] \<and>
           headers_ended r"
    using cors_headers_on_parsed_requests [of site cmd target v d]
    by (simp add: cors_headers_def)
next
  show "handle_one_request parse_request site over_long_request_line (unparsed v d) =
     Inl AttributeError"
    by (simp add: handle_one_request_def over_long_request_line_length send_error_None)
qed

theorem cors_headers_unless_refused_witness:
  "length over_long_request_line > 65536 \<and>
   handle_one_request demo_parse_request demo_site over_long_request_line
     (unparsed ''SimpleHTTP/0.6 Python/3.12.3'' ''Tue, 03 Nov 2026 10:00:00 GMT'') =
     Inl AttributeError \<and>
   demo_parse_request ''OPTIONS /pkg/echoes_rpg.js HTTP/1.1'' =
     Accepted ''OPTIONS'' ''/pkg/echoes_rpg.js'' \<and>
   (\<exists>r. handle_one_request demo_parse_request demo_site ''OPTIONS /pkg/echoes_rpg.js HTTP/1.1''
          (unparsed ''SimpleHTTP/0.6 Python/3.12.3'' ''Tue, 03 Nov 2026 10:00:00 GMT'') = Inr r \<and>
        response_code r = Some 200 \<and>
        headers_buffer r =
          [(''Server'', ''SimpleHTTP/0.6 Python/3.12.3''),
           (''Date'', ''Tue, 03 Nov 2026 10:00:00 GMT''),
           (''Access-Control-Allow-Origin'', ''*''),
           (''Access-Control-Allow-Methods'', ''GET, POST, OPTIONS''),
           (''Access-Control-Allow-Headers'', ''*''),
           (''Content-Type'', ''application/javascript'')])"
proof -
  let ?v = "''SimpleHTTP/0.6 Python/3.12.3''" and ?d = "''Tue, 03 Nov 2026 10:00:00 GMT''"
  have long: "length over_long_request_line > 65536"
    by (simp add: over_long_request_line_length)
  have crash: "handle_one_request demo_parse_request demo_site over_long_request_line
     (unparsed ?v ?d) = Inl AttributeError"
    using long cors_headers_unless_refused [of over_long_request_line demo_parse_request
        demo_site ?v ?d]
    by blast
  have acc: "demo_parse_request ''OPTIONS /pkg/echoes_rpg.js HTTP/1.1'' =
     Accepted ''OPTIONS'' ''/pkg/echoes_rpg.js''"
    by (simp add: demo_parse_request_def)
  have s: "suffix_content_type ''/pkg/echoes_rpg.js'' = [''application/javascript'']"
    by (simp add: suffix_content_type_def endswith_def suffix_to_prefix)
  have u: "(unparsed ?v ?d)\<lparr>command := ''OPTIONS'', path := Some ''/pkg/echoes_rpg.js''\<rparr> =
             request ''OPTIONS'' ''/pkg/echoes_rpg.js'' ?v ?d"
    by (simp add: request_def)
  have "handle_one_request demo_parse_request demo_site ''OPTIONS /pkg/echoes_rpg.js HTTP/1.1''
          (unparsed ?v ?d) = handle demo_site (request ''OPTIONS'' ''/pkg/echoes_rpg.js'' ?v ?d)"
    by (simp add: handle_one_request_def acc u)
  then have ok: "\<exists>r. handle_one_request demo_parse_request demo_site
          ''OPTIONS /pkg/echoes_rpg.js HTTP/1.1'' (unparsed ?v ?d) = Inr r \<and>
        response_code r = Some 200 \<and>
        headers_buffer r =
          [(''Server'', ?v), (''Date'', ?d),
           (''Access-Control-Allow-Origin'', ''*''),
           (''Access-Control-Allow-Methods'', ''GET, POST, OPTIONS''),
           (''Access-Control-Allow-Headers'', ''*''),
           (''Content-Type'', ''application/javascript'')]"
    by (simp add: handle_options s cors_headers_def)
  show ?thesis using long crash acc ok by blast
qed

text \<open>
  Claim C5. An \<open>OPTIONS\<close> request is answered with status 200, an empty body and the three
  headers of cross-origin access, and nothing is looked up in the file system: no path is
  opened, and the response is the same whatever the served files are.
\<close>

theorem options_preflight:
  "\<exists>r. handle site (request ''OPTIONS'' target v d) = Inr r \<and>
       response_code r = Some 200 \<and>
       wfile r = [] \<and>
       headers_ended r \<and>
       filter (\<lambda>h. prefix ''Access-Control-'' (fst h)) (headers_buffer r) =
         [(''Access-Control-Allow-Origin'', ''*''),
          (''Access-Control-Allow-Methods'', ''GET, POST, OPTIONS''),
          (''Access-Control-Allow-Headers'', ''*'')] \<and>
       opened r = [] \<and>
       handle site' (request ''OPTIONS'' target v d) = Inr r"
proof -
  let ?r = "(request ''OPTIONS'' target v d)
            \<lparr>response_code := Some 200,
              headers_buffer :=
                [(''Server'', v), (''Date'', d)] @
                cors_headers @ map (Pair ''Content-Type'') (suffix_content_type target),
              headers_ended := True\<rparr>"
  have 1: "handle site (request ''OPTIONS'' target v d) = Inr ?r" by (rule handle_options)
  have 2: "handle site' (request ''OPTIONS'' target v d) = Inr ?r" by (rule handle_options)
  have 3: "filter (\<lambda>h. prefix ''Access-Control-'' (fst h)) (headers_buffer ?r) =
         [(''Access-Control-Allow-Origin'', ''*''),
          (''Access-Control-Allow-Methods'', ''GET, POST, OPTIONS''),
          (''Access-Control-Allow-Headers'', ''*'')]"
    by (simp add: cors_filter) (simp add: cors_headers_def)
  have 4: "response_code ?r = Some 200" "wfile ?r = []" "headers_ended ?r" "opened ?r = []"
    by simp_all
  show ?thesis using 1 2 3 4 by blast
qed

lemma get_found_reply:
  assumes "files site (translate_path site target) = Some f"
  shows "\<exists>r. handle site (request ''GET'' target v d) = Inr r \<and>
      response_code r = Some 200 \<and> headers_ended r \<and> wfile r = content f \<and>
      headers_buffer r =
        [(''Server'', v), (''Date'', d),
         (''Content-type'', guess_type site (translate_path site target)),
         (''Content-Length'', str (length (content f))),
         (''Last-Modified'', last_modified f)] @
        cors_headers @ map (Pair ''Content-Type'') (suffix_content_type target)"
  by (simp add: handle_get_found [OF assms])

lemma get_missing_reply:
  assumes "files site (translate_path site target) = None"
  shows "\<exists>r. handle site (request ''GET'' target v d) = Inr r \<and>
      response_code r = Some 404 \<and> headers_ended r \<and>
      headers_buffer r =
        [(''Server'', v), (''Date'', d), (''Connection'', ''close''),
         (''Content-Type'', error_content_type site),
         (''Content-Length'', str (length (error_page site 404)))] @
        cors_headers @ map (Pair ''Content-Type'') (suffix_content_type target)"
  by (simp add: handle_get_missing [OF assms])

lemma options_reply:
  "\<exists>r. handle site (request ''OPTIONS'' target v d) = Inr r \<and>
      response_code r = Some 200 \<and> headers_ended r \<and> wfile r = [] \<and> opened r = [] \<and>
      headers_buffer r =
        [(''Server'', v), (''Date'', d)] @
        cors_headers @ map (Pair ''Content-Type'') (suffix_content_type target)"
  by (simp add: handle_options)

subsection \<open>The content type\<close>

text \<open>
  Claim C1, as amended. A successful \<open>GET\<close> (status 200, header section closed, the file's
  bytes as body) of a request path that, as received and with its query string, ends in
  \<open>.wasm\<close> carries two content types: first that of the generic lookup on the resolved
  file, sent by the inherited handler, then \<open>application/wasm\<close>, in the last header of the
  response. It is likewise with \<open>application/javascript\<close> for \<open>.js\<close> and with
  \<open>text/html; charset=utf-8\<close> for \<open>.html\<close>. For any other request path the only content
  type of the response is that of the generic lookup, which is \<open>application/octet-stream\<close>
  when the lookup knows none.
\<close>

theorem content_type_of_get:
  assumes "files site (translate_path site target) = Some f"
  shows
   "\<exists>r. handle site (request ''GET'' target v d) = Inr r \<and>
      response_code r = Some 200 \<and> headers_ended r \<and> wfile r = content f \<and>
      (endswith target ''.wasm'' \<longrightarrow>
         content_types r = [guess_type site (translate_path site target), ''application/wasm''] \<and>
         last (headers_buffer r) = (''Content-Type'', ''application/wasm'')) \<and>
      (endswith target ''.js'' \<longrightarrow>
         content_types r =
           [guess_type site (translate_path site target), ''application/javascript''] \<and>
         last (headers_buffer r) = (''Content-Type'', ''application/javascript'')) \<and>
      (endswith target ''.html'' \<longrightarrow>
         content_types r =
           [guess_type site (translate_path site target), ''text/html; charset=utf-8''] \<and>
         last (headers_buffer r) = (''Content-Type'', ''text/html; charset=utf-8'')) \<and>
      (\<not> endswith target ''.wasm'' \<and> \<not> endswith target ''.js'' \<and> \<not> endswith target ''.html'' \<longrightarrow>
         content_types r = [guess_type site (translate_path site target)]) \<and>
      (mime_types site (translate_path site target) = None \<longrightarrow>
         guess_type site (translate_path site target) = ''application/octet-stream'')"
proof -
  let ?p = "translate_path site target"
  let ?base = "[(''Server'', v), (''Date'', d), (''Content-type'', guess_type site ?p),
                (''Content-Length'', str (length (content f))),
                (''Last-Modified'', last_modified f)]"
  obtain r where r: "handle site (request ''GET'' target v d) = Inr r"
    and code: "response_code r = Some 200" and ended: "headers_ended r"
    and body: "wfile r = content f"
    and hb: "headers_buffer r =
              ?base @ cors_headers @ map (Pair ''Content-Type'') (suffix_content_type target)"
    using get_found_reply [OF assms, of v d] by blast
  have ct: "content_types r = guess_type site ?p # suffix_content_type target"
    using content_types_buffer [OF hb] by (simp add: lower_names)
  have lst: "last (headers_buffer r) = (''Content-Type'', t)"
    if "suffix_content_type target = [t]" for t
    by (simp add: hb that)
  have wasm: "content_types r = [guess_type site ?p, ''application/wasm''] \<and>
         last (headers_buffer r) = (''Content-Type'', ''application/wasm'')"
    if "endswith target ''.wasm''"
    using ct lst [OF suffix_content_type_cases(1) [OF that]]
    by (simp add: suffix_content_type_cases(1) [OF that])
  have js: "content_types r = [guess_type site ?p, ''application/javascript''] \<and>
         last (headers_buffer r) = (''Content-Type'', ''application/javascript'')"
    if "endswith target ''.js''"
    using ct lst [OF suffix_content_type_cases(2) [OF that]]
    by (simp add: suffix_content_type_cases(2) [OF that])
  have html: "content_types r = [guess_type site ?p, ''text/html; charset=utf-8''] \<and>
         last (headers_buffer r) = (''Content-Type'', ''text/html; charset=utf-8'')"
    if "endswith target ''.html''"
    using ct lst [OF suffix_content_type_cases(3) [OF that]]
    by (simp add: suffix_content_type_cases(3) [OF that])
  have other: "content_types r = [guess_type site ?p]"
    if "\<not> endswith target ''.wasm'' \<and> \<not> endswith target ''.js'' \<and> \<not> endswith target ''.html''"
    using ct that by (simp add: suffix_content_type_cases(4))
  have dflt: "guess_type site ?p = ''application/octet-stream''" if "mime_types site ?p = None"
    using that by (simp add: guess_type_def)
  have "handle site (request ''GET'' target v d) = Inr r \<and>
      response_code r = Some 200 \<and> headers_ended r \<and> wfile r = content f \<and>
      (endswith target ''.wasm'' \<longrightarrow>
         content_types r = [guess_type site ?p, ''application/wasm''] \<and>
         last (headers_buffer r) = (''Content-Type'', ''application/wasm'')) \<and>
      (endswith target ''.js'' \<longrightarrow>
         content_types r = [guess_type site ?p, ''application/javascript''] \<and>
         last (headers_buffer r) = (''Content-Type'', ''application/javascript'')) \<and>
      (endswith target ''.html'' \<longrightarrow>
         content_types r = [guess_type site ?p, ''text/html; charset=utf-8''] \<and>
         last (headers_buffer r) = (''Content-Type'', ''text/html; charset=utf-8'')) \<and>
      (\<not> endswith target ''.wasm'' \<and> \<not> endswith target ''.js'' \<and> \<not> endswith target ''.html'' \<longrightarrow>
         content_types r = [guess_type site ?p]) \<and>
      (mime_types site ?p = None \<longrightarrow> guess_type site ?p = ''application/octet-stream'')"
  proof (intro conjI)
    show "handle site (request ''GET'' target v d) = Inr r" by (rule r)
    show "response_code r = Some 200" by (rule code)
    show "headers_ended r" by (rule ended)
    show "wfile r = content f" by (rule body)
    show "endswith target ''.wasm'' \<longrightarrow>
         content_types r = [guess_type site ?p, ''application/wasm''] \<and>
         last (headers_buffer r) = (''Content-Type'', ''application/wasm'')"
      by (rule impI) (rule wasm)
    show "endswith target ''.js'' \<longrightarrow>
         content_types r = [guess_type site ?p, ''application/javascript''] \<and>
         last (headers_buffer r) = (''Content-Type'', ''application/javascript'')"
      by (rule impI) (rule js)
    show "endswith target ''.html'' \<longrightarrow>
         content_types r = [guess_type site ?p, ''text/html; charset=utf-8''] \<and>
         last (headers_buffer r) = (''Content-Type'', ''text/html; charset=utf-8'')"
      by (rule impI) (rule html)
    show "\<not> endswith target ''.wasm'' \<and> \<not> endswith target ''.js'' \<and> \<not> endswith target ''.html'' \<longrightarrow>
         content_types r = [guess_type site ?p]"
      by (rule impI) (rule other)
    show "mime_types site ?p = None \<longrightarrow> guess_type site ?p = ''application/octet-stream''"
      by (rule impI) (rule dflt)
  qed
  then show ?thesis by (rule exI [where x = r])
qed

theorem content_type_of_get_witness:
  "files demo_site (translate_path demo_site ''/pkg/echoes_rpg_bg.wasm'') = Some wasm_file \<and>
   endswith ''/pkg/echoes_rpg_bg.wasm'' ''.wasm'' \<and>
   (\<exists>r. handle demo_site (demo_request ''GET'' ''/pkg/echoes_rpg_bg.wasm'') = Inr r \<and>
        response_code r = Some 200 \<and> headers_ended r \<and>
        content_types r = [''application/octet-stream'', ''application/wasm''] \<and>
        last (headers_buffer r) = (''Content-Type'', ''application/wasm''))"
proof -
  have f: "files demo_site (translate_path demo_site ''/pkg/echoes_rpg_bg.wasm'') = Some wasm_file"
    by (simp add: demo_site_def)
  have e: "endswith ''/pkg/echoes_rpg_bg.wasm'' ''.wasm''"
    by (simp add: endswith_def suffix_to_prefix)
  have g: "guess_type demo_site (translate_path demo_site ''/pkg/echoes_rpg_bg.wasm'') =
             ''application/octet-stream''"
    by (simp add: guess_type_def demo_site_def)
  from content_type_of_get [OF f, of "''SimpleHTTP/0.6 Python/3.12.3''"
        "''Tue, 03 Nov 2026 10:00:00 GMT''"]
  obtain r where r: "handle demo_site (demo_request ''GET'' ''/pkg/echoes_rpg_bg.wasm'') = Inr r"
      "response_code r = Some 200" "headers_ended r"
      "endswith ''/pkg/echoes_rpg_bg.wasm'' ''.wasm'' \<longrightarrow>
         content_types r =
           [guess_type demo_site (translate_path demo_site ''/pkg/echoes_rpg_bg.wasm''),
            ''application/wasm''] \<and>
         last (headers_buffer r) = (''Content-Type'', ''application/wasm'')"
    unfolding demo_request_def by blast
  from r(4) e g have "content_types r = [''application/octet-stream'', ''application/wasm''] \<and>
        last (headers_buffer r) = (''Content-Type'', ''application/wasm'')"
    by simp
  then show ?thesis using f e r(1,2,3) by blast
qed

text \<open>
  Claim C1 as stated is about the file that is served, and gives the response the mapped
  content type as its content type. With a generic lookup like that of Python's
  \<open>mimetypes\<close>, the file \<open>app.js\<close> requested as \<open>/app.js?v=1\<close> is served with
  \<open>text/javascript\<close> alone, and requested as \<open>/app.js\<close> with \<open>text/javascript\<close> first and
  \<open>application/javascript\<close> after it.
\<close>

theorem content_type_of_file_counterexample:
  "\<not> isl (handle mimetypes_site (demo_request ''GET'' ''/app.js?v=1'')) \<and>
   response_code (projr (handle mimetypes_site (demo_request ''GET'' ''/app.js?v=1''))) = Some 200 \<and>
   wfile (projr (handle mimetypes_site (demo_request ''GET'' ''/app.js?v=1''))) = content js_file \<and>
   endswith (translate_path mimetypes_site ''/app.js?v=1'') ''.js'' \<and>
   content_types (projr (handle mimetypes_site (demo_request ''GET'' ''/app.js?v=1''))) =
     [''text/javascript''] \<and>
   \<not> isl (handle mimetypes_site (demo_request ''GET'' ''/app.js'')) \<and>
   response_code (projr (handle mimetypes_site (demo_request ''GET'' ''/app.js''))) = Some 200 \<and>
   content_types (projr (handle mimetypes_site (demo_request ''GET'' ''/app.js''))) =
     [''text/javascript'', ''application/javascript'']"
proof -
  let ?v = "''SimpleHTTP/0.6 Python/3.12.3''" and ?d = "''Tue, 03 Nov 2026 10:00:00 GMT''"
  have p: "translate_path mimetypes_site ''/app.js?v=1'' = ''/srv/echoes_rpg/dist/app.js''"
          "translate_path mimetypes_site ''/app.js'' = ''/srv/echoes_rpg/dist/app.js''"
    by (simp_all add: mimetypes_site_def demo_site_def)
  have f: "files mimetypes_site (translate_path mimetypes_site ''/app.js?v=1'') = Some js_file"
          "files mimetypes_site (translate_path mimetypes_site ''/app.js'') = Some js_file"
    by (simp_all add: p) (simp_all add: mimetypes_site_def)
  have e: "endswith ''/srv/echoes_rpg/dist/app.js'' ''.js''"
          "\<not> endswith ''/srv/echoes_rpg/dist/app.js'' ''.wasm''"
    by (simp_all add: endswith_def suffix_to_prefix)
  have g: "guess_type mimetypes_site ''/srv/echoes_rpg/dist/app.js'' = ''text/javascript''"
    by (simp add: guess_type_def mimetypes_site_def e)
  have s: "suffix_content_type ''/app.js?v=1'' = []"
          "suffix_content_type ''/app.js'' = [''application/javascript'']"
    by (simp_all add: suffix_content_type_def endswith_def suffix_to_prefix)
  note q = handle_get_found [OF f(1), of ?v ?d, folded demo_request_def]
  note n = handle_get_found [OF f(2), of ?v ?d, folded demo_request_def]
  have cq: "content_types (projr (handle mimetypes_site (demo_request ''GET'' ''/app.js?v=1''))) =
     [''text/javascript'']"
    by (simp add: q s p g content_types_def cors_not_content_type lower_names)
  have cn: "content_types (projr (handle mimetypes_site (demo_request ''GET'' ''/app.js''))) =
     [''text/javascript'', ''application/javascript'']"
    by (simp add: n s p g content_types_def cors_not_content_type lower_names)
  show ?thesis
    by (intro conjI) (simp_all add: cq cn, simp_all add: q n p e)
qed

text \<open>
  Claim C10, as amended. The content type of lines 23-28 is decided by the request path as
  received, and \<open>end_headers\<close> appends it after the headers already sent, replacing none:
  so it is on the answer to \<open>OPTIONS\<close>, on a 404 (after the content type of the error
  page), and on a successful \<open>GET\<close> (after the content type of the generic lookup, which
  makes two \<open>Content-Type\<close> headers when a suffix matches). A query string is part of the
  path: \<open>/app.wasm?v=1\<close> gets no content type from \<open>end_headers\<close>, so that the content
  type of the generic lookup is the only one of its response, while a path whose query string
  ends in \<open>.wasm\<close> gets \<open>application/wasm\<close>.
\<close>

theorem suffix_header_from_raw_path:
  "(path h = Some p \<longrightarrow>
      (\<exists>r. end_headers h = Inr r \<and>
           headers_buffer r =
             headers_buffer h @ cors_headers @
             map (Pair ''Content-Type'') (suffix_content_type p))) \<and>
   (\<exists>r. handle site (request ''OPTIONS'' target v d) = Inr r \<and>
        content_types r = suffix_content_type target) \<and>
   (files site (translate_path site target) = None \<longrightarrow>
      (\<exists>r. handle site (request ''GET'' target v d) = Inr r \<and>
           response_code r = Some 404 \<and>
           content_types r = error_content_type site # suffix_content_type target)) \<and>
   (files site (translate_path site target) \<noteq> None \<longrightarrow>
      (\<exists>r. handle site (request ''GET'' target v d) = Inr r \<and>
           response_code r = Some 200 \<and>
           content_types r =
             guess_type site (translate_path site target) # suffix_content_type target \<and>
           (endswith target ''.wasm'' \<or> endswith target ''.js'' \<or> endswith target ''.html'' \<longrightarrow>
              length (content_types r) = 2))) \<and>
   suffix_content_type ''/app.wasm?v=1'' = [] \<and>
   suffix_content_type ''/index.html?module=app.wasm'' = [''application/wasm'']"
proof (intro conjI impI)
  assume "path h = Some p"
  then show "\<exists>r. end_headers h = Inr r \<and>
           headers_buffer r =
             headers_buffer h @ cors_headers @
             map (Pair ''Content-Type'') (suffix_content_type p)"
    by (simp add: end_headers_Some)
next
  obtain r where r: "handle site (request ''OPTIONS'' target v d) = Inr r"
    and hb: "headers_buffer r =
              [(''Server'', v), (''Date'', d)] @
              cors_headers @ map (Pair ''Content-Type'') (suffix_content_type target)"
    using options_reply [of site target v d] by blast
  have ct: "content_types r = suffix_content_type target"
    using content_types_buffer [OF hb] by (simp add: lower_names)
  have "handle site (request ''OPTIONS'' target v d) = Inr r \<and>
        content_types r = suffix_content_type target"
    using r ct by (rule conjI)
  then show "\<exists>r. handle site (request ''OPTIONS'' target v d) = Inr r \<and>
        content_types r = suffix_content_type target"
    by (rule exI [where x = r])
next
  show "suffix_content_type ''/app.wasm?v=1'' = []"
    by (simp add: suffix_content_type_def endswith_def suffix_to_prefix)
  show "suffix_content_type ''/index.html?module=app.wasm'' = [''application/wasm'']"
    by (simp add: suffix_content_type_def endswith_def suffix_to_prefix)
next
  assume m: "files site (translate_path site target) = None"
  obtain r where r: "handle site (request ''GET'' target v d) = Inr r"
    and code: "response_code r = Some 404"
    and hb: "headers_buffer r =
              [(''Server'', v), (''Date'', d), (''Connection'', ''close''),
               (''Content-Type'', error_content_type site),
               (''Content-Length'', str (length (error_page site 404)))] @
              cors_headers @ map (Pair ''Content-Type'') (suffix_content_type target)"
    using get_missing_reply [OF m, of v d] by blast
  have ct: "content_types r = error_content_type site # suffix_content_type target"
    using content_types_buffer [OF hb] by (simp add: lower_names)
  have "handle site (request ''GET'' target v d) = Inr r \<and>
           response_code r = Some 404 \<and>
           content_types r = error_content_type site # suffix_content_type target"
    by (intro conjI) (rule r, rule code, rule ct)
  then show "\<exists>r. handle site (request ''GET'' target v d) = Inr r \<and>
           response_code r = Some 404 \<and>
           content_types r = error_content_type site # suffix_content_type target"
    by (rule exI [where x = r])
next
  assume "files site (translate_path site target) \<noteq> None"
  then obtain f where f: "files site (translate_path site target) = Some f" by blast
  obtain r where r: "handle site (request ''GET'' target v d) = Inr r"
    and code: "response_code r = Some 200"
    and hb: "headers_buffer r =
              [(''Server'', v), (''Date'', d),
               (''Content-type'', guess_type site (translate_path site target)),
               (''Content-Length'', str (length (content f))),
               (''Last-Modified'', last_modified f)] @
              cors_headers @ map (Pair ''Content-Type'') (suffix_content_type target)"
    using get_found_reply [OF f, of v d] by blast
  have ct: "content_types r =
              guess_type site (translate_path site target) # suffix_content_type target"
    using content_types_buffer [OF hb] by (simp add: lower_names)
  have two: "length (content_types r) = 2"
    if "endswith target ''.wasm'' \<or> endswith target ''.js'' \<or> endswith target ''.html''"
  proof -
    from that have "length (suffix_content_type target) = 1"
      using suffix_content_type_cases(1,2,3) [of target] by auto
    then show ?thesis by (simp add: ct)
  qed
  have "handle site (request ''GET'' target v d) = Inr r \<and>
           response_code r = Some 200 \<and>
           content_types r =
             guess_type site (translate_path site target) # suffix_content_type target \<and>
           (endswith target ''.wasm'' \<or> endswith target ''.js'' \<or> endswith target ''.html'' \<longrightarrow>
              length (content_types r) = 2)"
  proof (intro conjI impI)
    show "handle site (request ''GET'' target v d) = Inr r" by (rule r)
    show "response_code r = Some 200" by (rule code)
    show "content_types r =
            guess_type site (translate_path site target) # suffix_content_type target"
      by (rule ct)
    assume "endswith target ''.wasm'' \<or> endswith target ''.js'' \<or> endswith target ''.html''"
    then show "length (content_types r) = 2" by (rule two)
  qed
  then show "\<exists>r. handle site (request ''GET'' target v d) = Inr r \<and>
           response_code r = Some 200 \<and>
           content_types r =
             guess_type site (translate_path site target) # suffix_content_type target \<and>
           (endswith target ''.wasm'' \<or> endswith target ''.js'' \<or> endswith target ''.html'' \<longrightarrow>
              length (content_types r) = 2)"
    by (rule exI [where x = r])
qed

theorem suffix_header_from_raw_path_witness:
  "path (demo_request ''GET'' ''/missing.wasm'') = Some ''/missing.wasm'' \<and>
   (\<exists>r. end_headers (demo_request ''GET'' ''/missing.wasm'') = Inr r \<and>
        headers_buffer r = cors_headers @ [(''Content-Type'', ''application/wasm'')]) \<and>
   files demo_site (translate_path demo_site ''/missing.wasm'') = None \<and>
   (\<exists>r. handle demo_site (demo_request ''GET'' ''/missing.wasm'') = Inr r \<and>
        response_code r = Some 404 \<and>
        content_types r = [''text/html;charset=utf-8'', ''application/wasm'']) \<and>
   files demo_site (translate_path demo_site ''/app.wasm?v=1'') \<noteq> None \<and>
   (\<exists>r. handle demo_site (demo_request ''GET'' ''/app.wasm?v=1'') = Inr r \<and>
        response_code r = Some 200 \<and>
        content_types r = [''application/octet-stream''])"
proof -
  let ?v = "''SimpleHTTP/0.6 Python/3.12.3''" and ?d = "''Tue, 03 Nov 2026 10:00:00 GMT''"
  have p: "path (demo_request ''GET'' ''/missing.wasm'') = Some ''/missing.wasm''"
    by (simp add: demo_request_def)
  have hb: "headers_buffer (demo_request ''GET'' ''/missing.wasm'') = []"
    by (simp add: demo_request_def)
  have m: "files demo_site (translate_path demo_site ''/missing.wasm'') = None"
    by (simp add: demo_site_def)
  have sm: "suffix_content_type ''/missing.wasm'' = [''application/wasm'']"
    by (simp add: suffix_content_type_def endswith_def suffix_to_prefix)
  have ect: "error_content_type demo_site = ''text/html;charset=utf-8''"
    by (simp add: demo_site_def)
  have f: "files demo_site (translate_path demo_site ''/app.wasm?v=1'') \<noteq> None"
    by (simp add: demo_site_def)
  have g: "guess_type demo_site (translate_path demo_site ''/app.wasm?v=1'') =
             ''application/octet-stream''"
    by (simp add: guess_type_def demo_site_def)
  have sa: "suffix_content_type ''/app.wasm?v=1'' = []"
    by (simp add: suffix_content_type_def endswith_def suffix_to_prefix)
  note a = suffix_header_from_raw_path [of "demo_request ''GET'' ''/missing.wasm''"
      "''/missing.wasm''" demo_site "''/missing.wasm''" ?v ?d, folded demo_request_def]
  note b = suffix_header_from_raw_path [of "demo_request ''GET'' ''/app.wasm?v=1''"
      "''/app.wasm?v=1''" demo_site "''/app.wasm?v=1''" ?v ?d, folded demo_request_def]
  have 0: "\<exists>r. end_headers (demo_request ''GET'' ''/missing.wasm'') = Inr r \<and>
        headers_buffer r = cors_headers @ [(''Content-Type'', ''application/wasm'')]"
    using a [THEN conjunct1, THEN mp, OF p] by (simp add: hb sm)
  have 1: "\<exists>r. handle demo_site (demo_request ''GET'' ''/missing.wasm'') = Inr r \<and>
        response_code r = Some 404 \<and>
        content_types r = [''text/html;charset=utf-8'', ''application/wasm'']"
    using a [THEN conjunct2, THEN conjunct2, THEN conjunct1, THEN mp, OF m]
    by (simp add: sm ect)
  obtain r where r: "handle demo_site (demo_request ''GET'' ''/app.wasm?v=1'') = Inr r"
      "response_code r = Some 200"
      "content_types r =
         guess_type demo_site (translate_path demo_site ''/app.wasm?v=1'') #
         suffix_content_type ''/app.wasm?v=1''"
    using b [THEN conjunct2, THEN conjunct2, THEN conjunct2, THEN conjunct1, THEN mp, OF f]
    by blast
  have "handle demo_site (demo_request ''GET'' ''/app.wasm?v=1'') = Inr r \<and>
        response_code r = Some 200 \<and>
        content_types r = [''application/octet-stream'']"
    using r by (simp add: g sa)
  then have 2: "\<exists>r. handle demo_site (demo_request ''GET'' ''/app.wasm?v=1'') = Inr r \<and>
        response_code r = Some 200 \<and>
        content_types r = [''application/octet-stream'']"
    by (rule exI [where x = r])
  show ?thesis
    by (intro conjI) (rule p, rule 0, rule m, rule 1, rule f, rule 2)
qed

text \<open>
  Claim C10 as stated goes further: the path \<open>/app.wasm?v=1\<close> would receive no
  \<open>application/wasm\<close> header at all. That fails where the generic lookup knows the
  extension: the request is answered with the file \<open>app.wasm\<close>, and the content type of
  the lookup, sent by the inherited handler, is \<open>application/wasm\<close>.
\<close>

theorem query_string_wasm_header_counterexample:
  "\<not> isl (handle wasm_aware_site (demo_request ''GET'' ''/app.wasm?v=1'')) \<and>
   response_code (projr (handle wasm_aware_site (demo_request ''GET'' ''/app.wasm?v=1''))) =
     Some 200 \<and>
   (''Content-type'', ''application/wasm'')
     \<in> set (headers_buffer (projr (handle wasm_aware_site (demo_request ''GET'' ''/app.wasm?v=1'')))) \<and>
   content_types (projr (handle wasm_aware_site (demo_request ''GET'' ''/app.wasm?v=1''))) =
     [''application/wasm'']"
proof -
  let ?v = "''SimpleHTTP/0.6 Python/3.12.3''" and ?d = "''Tue, 03 Nov 2026 10:00:00 GMT''"
  have p: "translate_path wasm_aware_site ''/app.wasm?v=1'' = ''/srv/echoes_rpg/dist/app.wasm''"
    by (simp add: wasm_aware_site_def demo_site_def)
  have f: "files wasm_aware_site (translate_path wasm_aware_site ''/app.wasm?v=1'') = Some wasm_file"
    by (simp add: p) (simp add: wasm_aware_site_def demo_site_def)
  have g: "guess_type wasm_aware_site ''/srv/echoes_rpg/dist/app.wasm'' = ''application/wasm''"
    by (simp add: guess_type_def wasm_aware_site_def endswith_def suffix_to_prefix)
  have sa: "suffix_content_type ''/app.wasm?v=1'' = []"
    by (simp add: suffix_content_type_def endswith_def suffix_to_prefix)
  note q = handle_get_found [OF f, of ?v ?d, folded demo_request_def]
  have c: "content_types (projr (handle wasm_aware_site (demo_request ''GET'' ''/app.wasm?v=1''))) =
     [''application/wasm'']"
    by (simp add: q sa p g content_types_def cors_not_content_type lower_names)
  show ?thesis
    by (intro conjI) (simp_all add: c, simp_all add: q p g)
qed

end
